theory Spec2Isabelle
  imports Main "HOL-Library.Product_Lexorder"
begin

section \<open>JavaScript values used by the server\<close>

text \<open>
  A JSON value of a request body, as far as the handlers look at it: a field is absent
  (\<open>undefined\<close>), a string or a number.
\<close>

datatype jsval = VUndefined | VString string | VNumber int

fun truthy :: "jsval \<Rightarrow> bool" where
  "truthy VUndefined = False"
| "truthy (VString s) = (s \<noteq> [])"
| "truthy (VNumber n) = (n \<noteq> 0)"

text \<open>
  The numbers the server stores as progress: an integer, \<open>NaN\<close> or \<open>Infinity\<close>
  (the last two arise from a division by a total of zero bytes).
\<close>

datatype jsnum = JNum int | JNaN | JInfinity

text \<open>
  What \<open>res.json\<close> sends for a number: JSON has neither \<open>NaN\<close> nor \<open>Infinity\<close>, and
  \<open>JSON.stringify\<close> writes \<open>null\<close> for both.
\<close>

datatype json_num = JsonNum int | JsonNull

fun json_of_num :: "jsnum \<Rightarrow> json_num" where
  "json_of_num (JNum n) = JsonNum n"
| "json_of_num JNaN = JsonNull"
| "json_of_num JInfinity = JsonNull"

text \<open>
  \<open>Math.round((downloaded / total) * k)\<close> for byte counters and \<open>k > 0\<close>:
  \<open>Math.round\<close> rounds half up. The quotient is taken exactly.
\<close>

definition round_ratio :: "nat \<Rightarrow> nat \<Rightarrow> nat \<Rightarrow> jsnum" where
  "round_ratio downloaded tot k =
     (if tot = 0 then (if downloaded = 0 then JNaN else JInfinity)
      else JNum ((2 * int downloaded * int k + int tot) div (2 * int tot)))"

fun js_add :: "int \<Rightarrow> jsnum \<Rightarrow> jsnum" where
  "js_add b (JNum n) = JNum (b + n)"
| "js_add b JNaN = JNaN"
| "js_add b JInfinity = JInfinity"

definition digit_char :: "nat \<Rightarrow> char" where
  "digit_char d = char_of (48 + d)"

fun show_nat :: "nat \<Rightarrow> string" where
  "show_nat n = (if n < 10 then [digit_char n] else show_nat (n div 10) @ [digit_char (n mod 10)])"

declare show_nat.simps [simp del]

definition show_int :: "int \<Rightarrow> string" where
  "show_int i = (if i < 0 then CHR ''-'' # show_nat (nat (- i)) else show_nat (nat i))"

text \<open>The text a template literal inserts for a number.\<close>

fun show_num :: "jsnum \<Rightarrow> string" where
  "show_num (JNum n) = show_int n"
| "show_num JNaN = ''NaN''"
| "show_num JInfinity = ''Infinity''"

section \<open>The progress record and the server state\<close>

record ffmpeg_progress =
  percent :: jsnum
  currentTime :: "string option"
  targetSize :: "jsnum option"

text \<open>
  A progress record is a JavaScript object: every property may be absent. The property
  \<open>timestamp\<close> is read by the hourly sweep.
\<close>

record progress_rec =
  status :: "string option"
  progress :: "jsnum option"
  stage :: "string option"
  downloadedBytes :: "nat option"
  totalBytes :: "nat option"
  error :: "string option"
  filePath :: "string option"
  filename :: "string option"
  ffmpegProgress :: "ffmpeg_progress option"
  timestamp :: "int option"

text \<open>
  The JSON text of a progress record, as \<open>res.json\<close> sends it: a property that is absent
  stays absent, and every number goes through \<open>json_of_num\<close>.
\<close>

record sent_ffmpeg =
  s_percent :: json_num
  s_currentTime :: "string option"
  s_targetSize :: "json_num option"

record sent_progress =
  s_status :: "string option"
  s_progress :: "json_num option"
  s_stage :: "string option"
  s_downloadedBytes :: "nat option"
  s_totalBytes :: "nat option"
  s_error :: "string option"
  s_filePath :: "string option"
  s_filename :: "string option"
  s_ffmpegProgress :: "sent_ffmpeg option"
  s_timestamp :: "int option"

definition json_of_ffmpeg :: "ffmpeg_progress \<Rightarrow> sent_ffmpeg" where
  "json_of_ffmpeg fp =
     \<lparr>s_percent = json_of_num (percent fp), s_currentTime = currentTime fp,
      s_targetSize = map_option json_of_num (targetSize fp)\<rparr>"

definition json_of_progress :: "progress_rec \<Rightarrow> sent_progress" where
  "json_of_progress p =
     \<lparr>s_status = status p, s_progress = map_option json_of_num (progress p),
      s_stage = stage p, s_downloadedBytes = downloadedBytes p, s_totalBytes = totalBytes p,
      s_error = error p, s_filePath = filePath p, s_filename = filename p,
      s_ffmpegProgress = map_option json_of_ffmpeg (ffmpegProgress p),
      s_timestamp = timestamp p\<rparr>"

definition empty_obj :: progress_rec where
  "empty_obj = \<lparr>status = None, progress = None, stage = None, downloadedBytes = None,
     totalBytes = None, error = None, filePath = None, filename = None,
     ffmpegProgress = None, timestamp = None\<rparr>"

text \<open>The object literal \<open>{status, progress, stage}\<close> that most writes start from.\<close>

definition basic_rec :: "string \<Rightarrow> jsnum \<Rightarrow> string \<Rightarrow> progress_rec" where
  "basic_rec st p sg = empty_obj\<lparr>status := Some st, progress := Some p, stage := Some sg\<rparr>"

section \<open>What the extraction library returns\<close>

text \<open>
  A decoded format. \<open>contentLength\<close> is a decimal string in the library; it is kept as
  the number it denotes (any such string is truthy, also \<open>"0"\<close>).
\<close>

record yt_format =
  itag :: int
  qualityLabel :: "string option"
  quality :: string
  container :: string
  hasVideo :: bool
  hasAudio :: bool
  mimeType :: "string option"
  contentLength :: "nat option"
  fps :: "int option"
  bitrate :: "int option"
  audioBitrate :: "int option"

record video_details =
  title :: string
  lengthSeconds :: string
  thumbnail0 :: "string option"
  author_name :: "string option"
  viewCount :: string

record video_info =
  videoDetails :: video_details
  formats :: "yt_format list"

text \<open>A promise settles: it resolves with a value or rejects with an error message.\<close>

datatype 'a outcome = Resolved 'a | Rejected string

section \<open>Responses\<close>

record video_option =
  o_quality :: string
  o_itag :: jsval
  o_fps :: "int option"
  o_bitrate :: "int option"
  o_mimeType :: "string option"
  o_filesize :: "int option"
  o_type :: string
  o_hasAudio :: "bool option"

record audio_option =
  a_quality :: string
  a_itag :: int
  a_bitrate :: "int option"
  a_mimeType :: "string option"
  a_filesize :: "int option"

record debug_entry =
  d_itag :: int
  d_quality :: string
  d_container :: string
  d_hasVideo :: bool
  d_hasAudio :: bool
  d_mimeType :: "string option"
  d_filesize :: string
  d_fps :: "int option"
  d_audioBitrate :: "int option"

record info_body =
  r_title :: string
  r_duration :: string
  r_thumbnail :: "string option"
  r_uploader :: "string option"
  r_view_count :: string
  videoFormats :: "video_option list"
  audioFormats :: "audio_option list"
  dbg_totalFormats :: nat
  dbg_combinedFormats :: nat
  dbg_videoOnlyFormats :: nat
  dbg_audioOnlyFormats :: nat

datatype body =
    ErrorBody string
  | InfoFailedBody string
  | DebugBody nat "debug_entry list"
  | InfoBody info_body
  | StartedBody bool string string
  | ProgressBody sent_progress
  | NotFoundBody
  | FileDownload string "string option"

datatype response = Response nat body

fun code :: "response \<Rightarrow> nat" where
  "code (Response c b) = c"

fun payload :: "response \<Rightarrow> body" where
  "payload (Response c b) = b"

section \<open>The server state\<close>

text \<open>
  The phases a download session awaits, named after the functions of the server.
\<close>

datatype phase =
    GetInfo
  | DownloadAudio
  | DownloadRegularVideo
  | DownloadVideoStream
  | DownloadAudioStream
  | MergeWithFFmpeg

record stream_options =
  filter_opt :: "string option"
  quality_opt :: jsval

text \<open>What a download session does, in the order it does it.\<close>

datatype event =
    Responded response
  | Wrote string progress_rec
  | Begin phase
  | End phase
  | Failed phase string
  | Selected int
  | Ytdl stream_options
  | Created string
  | Unlinked string

text \<open>
  The state: the map \<open>downloadProgress\<close>, the files on disk, and the events of the
  download sessions so far (a history kept for the proofs; the server has no such list).
\<close>

record server_state =
  downloadProgress :: "string \<rightharpoonup> progress_rec"
  files :: "string set"
  trace :: "event list"

section \<open>GET /api/progress/:sessionId\<close>

definition progress_handler :: "string \<Rightarrow> server_state \<Rightarrow> response \<times> server_state" where
  "progress_handler sessionId s =
     (case downloadProgress s sessionId of
        Some p \<Rightarrow> (Response 200 (ProgressBody (json_of_progress p)), s)
      | None \<Rightarrow> (Response 200 NotFoundBody, s))"

section \<open>GET /api/file/:sessionId\<close>

text \<open>
  The handler answers 404 or starts the transfer; it changes nothing itself. When the
  transfer ends without error, a timer runs \<open>file_cleanup\<close> one minute later.
\<close>

definition file_handler :: "string \<Rightarrow> server_state \<Rightarrow> response \<times> server_state" where
  "file_handler sessionId s =
     (case downloadProgress s sessionId of
        None \<Rightarrow> (Response 404 (ErrorBody ''File not found or not ready''), s)
      | Some p \<Rightarrow>
          if status p \<noteq> Some ''completed''
          then (Response 404 (ErrorBody ''File not found or not ready''), s)
          else (case filePath p of
                  None \<Rightarrow> (Response 404 (ErrorBody ''File not found on disk''), s)
                | Some fp \<Rightarrow>
                    if fp \<notin> files s
                    then (Response 404 (ErrorBody ''File not found on disk''), s)
                    else (Response 200 (FileDownload fp (filename p)), s)))"


section \<open>The hourly sweep\<close>



section \<open>Strings: the regular expressions and \<open>parseInt\<close>\<close>

definition is_digit :: "char \<Rightarrow> bool" where
  "is_digit c = (c \<in> set ''0123456789'')"

definition is_word_char :: "char \<Rightarrow> bool" where
  "is_word_char c =
     (c \<in> set ''abcdefghijklmnopqrstuvwxyzABCDEFGHIJKLMNOPQRSTUVWXYZ0123456789_'')"

text \<open>The ASCII characters of the class \<open>\s\<close>: tab, line feed, vertical tab, form feed,
  carriage return and space.\<close>

definition is_space :: "char \<Rightarrow> bool" where
  "is_space c = (of_char c \<in> {9, 10, 11, 12, 13, 32 :: nat})"

definition digit_val :: "char \<Rightarrow> nat" where
  "digit_val c = of_char c - 48"

definition digits_val :: "string \<Rightarrow> nat" where
  "digits_val ds = foldl (\<lambda>acc c. 10 * acc + digit_val c) 0 ds"

text \<open>
  \<open>s.match(/(\d+)p/)?.[1]\<close>: the leftmost run of digits that is directly followed by
  \<open>p\<close>; \<open>acc\<close> is the run of digits read so far.
\<close>

fun match_digits_p :: "string \<Rightarrow> string \<Rightarrow> string option" where
  "match_digits_p acc [] = None"
| "match_digits_p acc (c # cs) =
     (if is_digit c then match_digits_p (acc @ [c]) cs
      else if c = CHR ''p'' \<and> acc \<noteq> [] then Some acc
      else match_digits_p [] cs)"

text \<open>
  \<open>parseInt(s)\<close> on decimal text: leading white space, an optional sign, then the
  longest run of digits; \<open>None\<close> is \<open>NaN\<close>. (A \<open>0x\<close> prefix, which selects base 16,
  does not occur in quality labels and is read here as the digit 0.)
\<close>

definition parseInt :: "string \<Rightarrow> int option" where
  "parseInt s =
     (let t = dropWhile is_space s;
          neg = (case t of c # _ \<Rightarrow> c = CHR ''-'' | [] \<Rightarrow> False);
          u = (case t of c # cs \<Rightarrow> if c = CHR ''-'' \<or> c = CHR ''+'' then cs else t | [] \<Rightarrow> t);
          ds = takeWhile is_digit u
      in if ds = [] then None
         else Some (if neg then - int (digits_val ds) else int (digits_val ds)))"

text \<open>\<open>title.replace(/[^\w\s-]/gi, '').replace(/\s+/g, '_')\<close>\<close>

fun underscore_spaces :: "bool \<Rightarrow> string \<Rightarrow> string" where
  "underscore_spaces in_run [] = []"
| "underscore_spaces in_run (c # cs) =
     (if is_space c
      then (if in_run then underscore_spaces True cs else CHR ''_'' # underscore_spaces True cs)
      else c # underscore_spaces False cs)"

definition sanitize_title :: "string \<Rightarrow> string" where
  "sanitize_title t =
     underscore_spaces False (filter (\<lambda>c. is_word_char c \<or> is_space c \<or> c = CHR ''-'') t)"

text \<open>\<open>s.includes(sub)\<close>\<close>

fun str_includes :: "string \<Rightarrow> string \<Rightarrow> bool" where
  "str_includes [] sub = (sub = [])"
| "str_includes (c # cs) sub = (take (length sub) (c # cs) = sub \<or> str_includes cs sub)"

text \<open>\<open>path.join(tempDir, name)\<close> for a file name without separators.\<close>

definition path_join :: "string \<Rightarrow> string \<Rightarrow> string" where
  "path_join dir name = dir @ ''/'' @ name"

section \<open>\<open>Array.prototype.sort\<close>\<close>

text \<open>
  The sort is stable; with a comparator that is a consistent ordering the result is the
  stable sort by it, which insertion from the right computes. A comparator result of
  \<open>NaN\<close> counts as 0.
\<close>

fun insert_by :: "('a \<Rightarrow> 'a \<Rightarrow> int) \<Rightarrow> 'a \<Rightarrow> 'a list \<Rightarrow> 'a list" where
  "insert_by cmp x [] = [x]"
| "insert_by cmp x (y # ys) = (if cmp x y \<le> 0 then x # y # ys else y # insert_by cmp x ys)"

definition js_sort :: "('a \<Rightarrow> 'a \<Rightarrow> int) \<Rightarrow> 'a list \<Rightarrow> 'a list" where
  "js_sort cmp xs = foldr (insert_by cmp) xs []"

section \<open>POST /api/info and POST /api/debug\<close>

text \<open>\<open>format.contentLength ? Math.round(format.contentLength / 1024 / 1024) : null\<close>\<close>

definition filesize_mb :: "yt_format \<Rightarrow> int option" where
  "filesize_mb f = map_option (\<lambda>n. (2 * int n + 1048576) div 2097152) (contentLength f)"

text \<open>\<open>format.qualityLabel || format.quality\<close>\<close>

definition label_or_quality :: "yt_format \<Rightarrow> string" where
  "label_or_quality f =
     (case qualityLabel f of
        None \<Rightarrow> quality f
      | Some l \<Rightarrow> if l \<noteq> [] then l else quality f)"

definition is_combined :: "yt_format \<Rightarrow> bool" where
  "is_combined f = (hasVideo f \<and> hasAudio f \<and> container f = ''mp4'')"

definition combined_option :: "yt_format \<Rightarrow> video_option" where
  "combined_option f =
     \<lparr>o_quality = label_or_quality f @ '' (combined)'', o_itag = VNumber (itag f),
      o_fps = fps f, o_bitrate = bitrate f, o_mimeType = mimeType f,
      o_filesize = filesize_mb f, o_type = ''combined'', o_hasAudio = Some True\<rparr>"

definition is_video_only :: "yt_format \<Rightarrow> bool" where
  "is_video_only f =
     (hasVideo f \<and> \<not> hasAudio f \<and>
      (case qualityLabel f of None \<Rightarrow> False | Some l \<Rightarrow> l \<noteq> []) \<and>
      (container f = ''mp4'' \<or>
       (case mimeType f of None \<Rightarrow> False | Some m \<Rightarrow> str_includes m ''video/mp4'')))"

definition video_only_option :: "yt_format \<Rightarrow> video_option" where
  "video_only_option f =
     \<lparr>o_quality = (case qualityLabel f of Some l \<Rightarrow> l | None \<Rightarrow> ''undefined'')
                    @ '' (video-only, will merge with audio)'',
      o_itag = VNumber (itag f),
      o_fps = fps f, o_bitrate = bitrate f, o_mimeType = mimeType f,
      o_filesize = filesize_mb f, o_type = ''video-only'', o_hasAudio = Some False\<rparr>"

text \<open>\<open>parseInt(a.quality.match(/(\d+)p/)?.[1] || '0')\<close>\<close>

definition option_height :: "video_option \<Rightarrow> int" where
  "option_height a =
     (case match_digits_p [] (o_quality a) of
        None \<Rightarrow> 0
      | Some ds \<Rightarrow> int (digits_val ds))"

definition option_cmp :: "video_option \<Rightarrow> video_option \<Rightarrow> int" where
  "option_cmp a b =
     (let aHeight = option_height a; bHeight = option_height b
      in if bHeight \<noteq> aHeight then bHeight - aHeight
         else if o_hasAudio a = Some True \<and> o_hasAudio b \<noteq> Some True then - 1
         else if o_hasAudio a \<noteq> Some True \<and> o_hasAudio b = Some True then 1
         else 0)"

definition is_audio_only :: "yt_format \<Rightarrow> bool" where
  "is_audio_only f = (hasAudio f \<and> \<not> hasVideo f)"

definition audio_option_of :: "yt_format \<Rightarrow> audio_option" where
  "audio_option_of f =
     \<lparr>a_quality = (case audioBitrate f of
                     None \<Rightarrow> ''Unknown''
                   | Some b \<Rightarrow> if b \<noteq> 0 then show_int b @ ''kbps'' else ''Unknown''),
      a_itag = itag f, a_bitrate = audioBitrate f, a_mimeType = mimeType f,
      a_filesize = filesize_mb f\<rparr>"

text \<open>\<open>x || 0\<close> for an optional number.\<close>

definition or_zero :: "int option \<Rightarrow> int" where
  "or_zero x = (case x of None \<Rightarrow> 0 | Some n \<Rightarrow> n)"

definition audio_cmp :: "audio_option \<Rightarrow> audio_option \<Rightarrow> int" where
  "audio_cmp a b = or_zero (a_bitrate b) - or_zero (a_bitrate a)"

definition presetFormats :: "video_option list" where
  "presetFormats =
     [\<lparr>o_quality = ''Best Quality (FFmpeg merge)'', o_itag = VString ''ffmpeg-best'',
       o_fps = None, o_bitrate = None, o_mimeType = None, o_filesize = None,
       o_type = ''preset'', o_hasAudio = None\<rparr>,
      \<lparr>o_quality = ''Best Combined Format'', o_itag = VString ''highest-audio'',
       o_fps = None, o_bitrate = None, o_mimeType = None, o_filesize = None,
       o_type = ''preset'', o_hasAudio = None\<rparr>,
      \<lparr>o_quality = ''Medium Quality (FFmpeg merge)'', o_itag = VString ''ffmpeg-medium'',
       o_fps = None, o_bitrate = None, o_mimeType = None, o_filesize = None,
       o_type = ''preset'', o_hasAudio = None\<rparr>]"

definition combinedFormats :: "yt_format list \<Rightarrow> video_option list" where
  "combinedFormats fs = map combined_option (filter is_combined fs)"

definition videoOnlyFormats :: "yt_format list \<Rightarrow> video_option list" where
  "videoOnlyFormats fs = map video_only_option (filter is_video_only fs)"

definition sorted_video_options :: "yt_format list \<Rightarrow> video_option list" where
  "sorted_video_options fs = take 15 (js_sort option_cmp (combinedFormats fs @ videoOnlyFormats fs))"

definition sorted_audio_options :: "yt_format list \<Rightarrow> audio_option list" where
  "sorted_audio_options fs = take 5 (js_sort audio_cmp (map audio_option_of (filter is_audio_only fs)))"

definition info_success :: "video_info \<Rightarrow> info_body" where
  "info_success info =
     (let vd = videoDetails info; fs = formats info
      in \<lparr>r_title = title vd, r_duration = lengthSeconds vd, r_thumbnail = thumbnail0 vd,
          r_uploader = author_name vd, r_view_count = viewCount vd,
          videoFormats = presetFormats @ sorted_video_options fs,
          audioFormats = sorted_audio_options fs,
          dbg_totalFormats = length fs,
          dbg_combinedFormats = length (combinedFormats fs),
          dbg_videoOnlyFormats = length (videoOnlyFormats fs),
          dbg_audioOnlyFormats = length (sorted_audio_options fs)\<rparr>)"

text \<open>
  The handlers take what the library does as arguments: \<open>validateURL\<close> is the library's
  URL check, and \<open>got\<close> is how the promise of \<open>ytdl.getInfo(url)\<close> settles.
\<close>

definition info_handler :: "(jsval \<Rightarrow> bool) \<Rightarrow> jsval \<Rightarrow> video_info outcome \<Rightarrow> response" where
  "info_handler validateURL url got =
     (if \<not> validateURL url then Response 400 (ErrorBody ''Invalid YouTube URL'')
      else (case got of
              Rejected msg \<Rightarrow> Response 500 (InfoFailedBody msg)
            | Resolved info \<Rightarrow> Response 200 (InfoBody (info_success info))))"

definition debug_entry_of :: "yt_format \<Rightarrow> debug_entry" where
  "debug_entry_of f =
     \<lparr>d_itag = itag f, d_quality = label_or_quality f, d_container = container f,
      d_hasVideo = hasVideo f, d_hasAudio = hasAudio f, d_mimeType = mimeType f,
      d_filesize = (case filesize_mb f of None \<Rightarrow> ''Unknown'' | Some m \<Rightarrow> show_int m @ '' MB''),
      d_fps = fps f, d_audioBitrate = audioBitrate f\<rparr>"

definition debug_handler :: "(jsval \<Rightarrow> bool) \<Rightarrow> jsval \<Rightarrow> video_info outcome \<Rightarrow> response" where
  "debug_handler validateURL url got =
     (if \<not> validateURL url then Response 400 (ErrorBody ''Invalid YouTube URL'')
      else (case got of
              Rejected msg \<Rightarrow> Response 500 (ErrorBody msg)
            | Resolved info \<Rightarrow>
                Response 200 (DebugBody (length (formats info)) (map debug_entry_of (formats info)))))"

section \<open>POST /api/download\<close>

record download_request =
  req_url :: jsval
  req_format :: jsval
  req_itag :: jsval

text \<open>
  How the outside world behaves during one session. A stream emits \<open>progress\<close> events
  with the byte counters \<open>(downloaded, total)\<close> and then either the write stream
  finishes or an \<open>error\<close> event carries a message. The multiplexer emits progress events
  (\<open>ev_percent\<close> is \<open>Math.round(progress.percent)\<close>, which is never negative
  infinity) and then ends, or fails with a message, leaving an output file behind or not.
\<close>

record stream_run =
  chunks :: "(nat \<times> nat) list"
  stream_error :: "string option"

record ffmpeg_event =
  ev_percent :: jsnum
  ev_timemark :: "string option"
  ev_targetSize :: "jsnum option"

datatype merge_end = MergeEnd | MergeError string bool

record merge_run =
  merge_events :: "ffmpeg_event list"
  merge_ending :: merge_end

record session_env =
  got_info :: "video_info outcome"
  first_stream :: stream_run
  second_stream :: stream_run
  merging :: merge_run

subsection \<open>The primitive effects\<close>

definition emit :: "event \<Rightarrow> server_state \<Rightarrow> server_state" where
  "emit e s = s\<lparr>trace := trace s @ [e]\<rparr>"

text \<open>\<open>downloadProgress.set(sessionId, p)\<close>\<close>

definition set_progress :: "string \<Rightarrow> progress_rec \<Rightarrow> server_state \<Rightarrow> server_state" where
  "set_progress sessionId p s =
     emit (Wrote sessionId p) (s\<lparr>downloadProgress := (downloadProgress s)(sessionId \<mapsto> p)\<rparr>)"

text \<open>\<open>fs.createWriteStream(path)\<close> creates the file.\<close>

definition createWriteStream :: "string \<Rightarrow> server_state \<Rightarrow> server_state" where
  "createWriteStream path s = emit (Created path) (s\<lparr>files := insert path (files s)\<rparr>)"

text \<open>\<open>fs.unlinkSync(path)\<close> throws when there is no such file.\<close>

definition unlinkSync :: "string \<Rightarrow> server_state \<Rightarrow> unit outcome \<times> server_state" where
  "unlinkSync path s =
     (if path \<in> files s
      then (Resolved (), emit (Unlinked path) (s\<lparr>files := files s - {path}\<rparr>))
      else (Rejected (''ENOENT: no such file or directory, unlink '' @ path), s))"

definition completed_rec :: "string \<Rightarrow> string \<Rightarrow> string \<Rightarrow> progress_rec" where
  "completed_rec sg fp fn =
     (basic_rec ''completed'' (JNum 100) sg)\<lparr>filePath := Some fp, filename := Some fn\<rparr>"

definition error_rec :: "string \<Rightarrow> progress_rec" where
  "error_rec msg = (basic_rec ''error'' (JNum 0) ''Error occurred'')\<lparr>error := Some msg\<rparr>"

text \<open>
  A piped stream: the \<open>progress\<close> events in turn, then \<open>finish\<close> (the promise resolves)
  or \<open>error\<close> (it rejects).
\<close>

definition run_stream ::
  "phase \<Rightarrow> (server_state \<Rightarrow> nat \<times> nat \<Rightarrow> server_state) \<Rightarrow> (server_state \<Rightarrow> server_state) \<Rightarrow>
   stream_run \<Rightarrow> server_state \<Rightarrow> unit outcome \<times> server_state" where
  "run_stream ph on_progress on_finish run s =
     (let s1 = foldl on_progress s (chunks run)
      in case stream_error run of
           None \<Rightarrow> (Resolved (), emit (End ph) (on_finish s1))
         | Some msg \<Rightarrow> (Rejected msg, emit (Failed ph msg) s1))"

subsection \<open>downloadAudio and downloadRegularVideo\<close>

definition download_progress_rec :: "string \<Rightarrow> nat \<Rightarrow> nat \<Rightarrow> progress_rec" where
  "download_progress_rec what downloaded tot =
     (let p = round_ratio downloaded tot 100
      in (basic_rec ''downloading'' p (''Downloading '' @ what @ ''... '' @ show_num p @ ''%''))
           \<lparr>downloadedBytes := Some downloaded, totalBytes := Some tot\<rparr>)"

definition downloadAudio ::
  "string \<Rightarrow> string \<Rightarrow> string \<Rightarrow> jsval \<Rightarrow> stream_run \<Rightarrow> server_state \<Rightarrow> unit outcome \<times> server_state" where
  "downloadAudio tempDir ttl sessionId itg run s =
     (let s1 = set_progress sessionId (basic_rec ''downloading'' (JNum 0) ''Downloading audio...'')
                 (emit (Begin DownloadAudio) s);
          outputPath = path_join tempDir (ttl @ ''_'' @ sessionId @ ''.mp3'');
          audioOptions = \<lparr>filter_opt = Some ''audioonly'',
                          quality_opt = (if truthy itg \<and> itg \<noteq> VString ''highest'' then itg
                                         else VString ''highestaudio'')\<rparr>;
          s2 = createWriteStream outputPath (emit (Ytdl audioOptions) s1)
      in run_stream DownloadAudio
           (\<lambda>s (downloaded, tot). set_progress sessionId (download_progress_rec ''audio'' downloaded tot) s)
           (set_progress sessionId (completed_rec ''Download completed!'' outputPath (ttl @ ''.mp3'')))
           run s2)"

text \<open>\<open>parseInt(a.qualityLabel?.replace('p', '') || '0')\<close>\<close>

definition label_height :: "yt_format \<Rightarrow> int option" where
  "label_height f =
     (case qualityLabel f of
        None \<Rightarrow> Some 0
      | Some l \<Rightarrow> (let r = remove1 (CHR ''p'') l in if r = [] then Some 0 else parseInt r))"

text \<open>A difference of two parsed numbers as a comparator result: \<open>NaN\<close> counts as 0.\<close>

definition diff_or_zero :: "int option \<Rightarrow> int option \<Rightarrow> int" where
  "diff_or_zero x y = (case x of None \<Rightarrow> 0 | Some a \<Rightarrow> (case y of None \<Rightarrow> 0 | Some b \<Rightarrow> a - b))"

definition regular_cmp :: "yt_format \<Rightarrow> yt_format \<Rightarrow> int" where
  "regular_cmp a b =
     (let aHeight = label_height a; bHeight = label_height b
      in if bHeight \<noteq> aHeight \<or> aHeight = None then diff_or_zero bHeight aHeight
         else or_zero (bitrate b) - or_zero (bitrate a))"

definition regular_options :: "jsval \<Rightarrow> video_info \<Rightarrow> stream_options" where
  "regular_options itg info =
     (if truthy itg \<and> itg \<notin> {VString ''highest'', VString ''highest-audio''}
      then \<lparr>filter_opt = None, quality_opt = itg\<rparr>
      else (case js_sort regular_cmp (filter is_combined (formats info)) of
              [] \<Rightarrow> \<lparr>filter_opt = Some ''videoandaudio'', quality_opt = VString ''highest''\<rparr>
            | best # _ \<Rightarrow> \<lparr>filter_opt = None, quality_opt = VNumber (itag best)\<rparr>))"

definition downloadRegularVideo ::
  "string \<Rightarrow> string \<Rightarrow> string \<Rightarrow> jsval \<Rightarrow> video_info \<Rightarrow> stream_run \<Rightarrow> server_state \<Rightarrow>
   unit outcome \<times> server_state" where
  "downloadRegularVideo tempDir ttl sessionId itg info run s =
     (let s1 = set_progress sessionId (basic_rec ''downloading'' (JNum 0) ''Downloading video...'')
                 (emit (Begin DownloadRegularVideo) s);
          outputPath = path_join tempDir (ttl @ ''_'' @ sessionId @ ''.mp4'');
          s2 = createWriteStream outputPath (emit (Ytdl (regular_options itg info)) s1)
      in run_stream DownloadRegularVideo
           (\<lambda>s (downloaded, tot). set_progress sessionId (download_progress_rec ''video'' downloaded tot) s)
           (set_progress sessionId (completed_rec ''Download completed!'' outputPath (ttl @ ''.mp4'')))
           run s2)"

subsection \<open>downloadAndMergeWithFFmpeg\<close>

definition video_stream_cmp :: "yt_format \<Rightarrow> yt_format \<Rightarrow> int" where
  "video_stream_cmp a b = diff_or_zero (label_height b) (label_height a)"

text \<open>
  The format \<open>downloadVideoStream\<close> selects; \<open>None\<close> when there is no video-only format.
\<close>

definition select_video_format :: "video_info \<Rightarrow> bool \<Rightarrow> yt_format option" where
  "select_video_format info useBestQuality =
     (let videoFormats = js_sort video_stream_cmp
                           (filter (\<lambda>f. hasVideo f \<and> \<not> hasAudio f) (formats info))
      in case videoFormats of
           [] \<Rightarrow> None
         | first # _ \<Rightarrow>
             Some (if useBestQuality then first
                   else if length videoFormats div 2 < length videoFormats
                        then videoFormats ! (length videoFormats div 2)
                        else first))"

text \<open>\<open>{...currentProgress, progress, stage}\<close>\<close>

definition spread_progress :: "progress_rec option \<Rightarrow> jsnum \<Rightarrow> string \<Rightarrow> progress_rec" where
  "spread_progress currentProgress p sg =
     (case currentProgress of None \<Rightarrow> empty_obj | Some r \<Rightarrow> r)\<lparr>progress := Some p, stage := Some sg\<rparr>"

definition stream_on_progress :: "string \<Rightarrow> string \<Rightarrow> int \<Rightarrow> server_state \<Rightarrow> nat \<times> nat \<Rightarrow> server_state" where
  "stream_on_progress sessionId streamType baseProgress s c =
     (case c of (downloaded, tot) \<Rightarrow>
        set_progress sessionId
          (spread_progress (downloadProgress s sessionId)
             (js_add baseProgress (round_ratio downloaded tot 25))
             (''Downloading '' @ streamType @ '' stream... '' @ show_num (round_ratio downloaded tot 100) @ ''%''))
          s)"

definition downloadVideoStream ::
  "string \<Rightarrow> video_info \<Rightarrow> bool \<Rightarrow> string \<Rightarrow> string \<Rightarrow> stream_run \<Rightarrow> server_state \<Rightarrow>
   unit outcome \<times> server_state" where
  "downloadVideoStream outputPath info useBestQuality sessionId streamType run s =
     (let s0 = emit (Begin DownloadVideoStream) s
      in case select_video_format info useBestQuality of
           None \<Rightarrow> (Rejected ''No video-only formats found'',
                    emit (Failed DownloadVideoStream ''No video-only formats found'') s0)
         | Some selectedFormat \<Rightarrow>
             (let s1 = emit (Selected (itag selectedFormat)) s0;
                  s2 = emit (Ytdl \<lparr>filter_opt = None, quality_opt = VNumber (itag selectedFormat)\<rparr>) s1;
                  s3 = createWriteStream outputPath s2
              in run_stream DownloadVideoStream
                   (stream_on_progress sessionId streamType (if streamType = ''video'' then 0 else 50))
                   (\<lambda>s. s) run s3))"

definition downloadAudioStream ::
  "string \<Rightarrow> string \<Rightarrow> string \<Rightarrow> stream_run \<Rightarrow> server_state \<Rightarrow> unit outcome \<times> server_state" where
  "downloadAudioStream outputPath sessionId streamType run s =
     (let s0 = emit (Begin DownloadAudioStream) s;
          s1 = emit (Ytdl \<lparr>filter_opt = Some ''audioonly'', quality_opt = VString ''highestaudio''\<rparr>) s0;
          s2 = createWriteStream outputPath s1
      in run_stream DownloadAudioStream (stream_on_progress sessionId streamType 50) (\<lambda>s. s) run s2)"

text \<open>
  The record a progress event of the multiplexer writes: \<open>percent\<close> is
  \<open>Math.round(progress.percent) || 0\<close> and the stored progress is
  \<open>75 + Math.round(percent * 0.25)\<close>.
\<close>

definition ffmpeg_rec :: "ffmpeg_event \<Rightarrow> progress_rec" where
  "ffmpeg_rec ev =
     (let pct = (case ev_percent ev of JNum n \<Rightarrow> JNum n | JNaN \<Rightarrow> JNum 0 | JInfinity \<Rightarrow> JInfinity);
          totalProgress = (case pct of JNum n \<Rightarrow> JNum (75 + (n + 2) div 4) | JNaN \<Rightarrow> JNaN
                           | JInfinity \<Rightarrow> JInfinity)
      in (basic_rec ''merging'' totalProgress (''Merging with FFmpeg... '' @ show_num pct @ ''%''))
           \<lparr>ffmpegProgress :=
              Some \<lparr>percent = pct, currentTime = ev_timemark ev, targetSize = ev_targetSize ev\<rparr>\<rparr>)"

definition mergeWithFFmpeg ::
  "string \<Rightarrow> string \<Rightarrow> string \<Rightarrow> string \<Rightarrow> merge_run \<Rightarrow> server_state \<Rightarrow> unit outcome \<times> server_state" where
  "mergeWithFFmpeg videoPath audioPath outputPath sessionId run s =
     (let s0 = emit (Begin MergeWithFFmpeg) s;
          s1 = foldl (\<lambda>s ev. set_progress sessionId (ffmpeg_rec ev) s) s0 (merge_events run)
      in case merge_ending run of
           MergeEnd \<Rightarrow> (Resolved (), emit (End MergeWithFFmpeg) (createWriteStream outputPath s1))
         | MergeError msg left \<Rightarrow>
             (Rejected msg,
              emit (Failed MergeWithFFmpeg msg) (if left then createWriteStream outputPath s1 else s1)))"

definition merge_try ::
  "string \<Rightarrow> string \<Rightarrow> string \<Rightarrow> video_info \<Rightarrow> string \<Rightarrow> string \<Rightarrow> bool \<Rightarrow> session_env \<Rightarrow>
   server_state \<Rightarrow> unit outcome \<times> server_state" where
  "merge_try videoPath audioPath outputPath info ttl sessionId useBestQuality env s =
     (let s1 = set_progress sessionId (basic_rec ''downloading'' (JNum 0) ''Downloading video stream...'') s
      in case downloadVideoStream videoPath info useBestQuality sessionId ''video'' (first_stream env) s1 of
           (Rejected e, s2) \<Rightarrow> (Rejected e, s2)
         | (Resolved _, s2) \<Rightarrow>
      (let s3 = set_progress sessionId (basic_rec ''downloading'' (JNum 50) ''Downloading audio stream...'') s2
       in case downloadAudioStream audioPath sessionId ''audio'' (second_stream env) s3 of
            (Rejected e, s4) \<Rightarrow> (Rejected e, s4)
          | (Resolved _, s4) \<Rightarrow>
      (let s5 = set_progress sessionId
                  (basic_rec ''merging'' (JNum 75) ''Merging video and audio with FFmpeg...'') s4
       in case mergeWithFFmpeg videoPath audioPath outputPath sessionId (merging env) s5 of
            (Rejected e, s6) \<Rightarrow> (Rejected e, s6)
          | (Resolved _, s6) \<Rightarrow>
      (case unlinkSync videoPath s6 of
         (Rejected e, s7) \<Rightarrow> (Rejected e, s7)
       | (Resolved _, s7) \<Rightarrow>
      (case unlinkSync audioPath s7 of
         (Rejected e, s8) \<Rightarrow> (Rejected e, s8)
       | (Resolved _, s8) \<Rightarrow>
           (Resolved (),
            set_progress sessionId
              (completed_rec ''Download and merge completed!'' outputPath (ttl @ ''_merged.mp4'')) s8))))))"

text \<open>The \<open>catch\<close> block: \<open>if (fs.existsSync(path)) fs.unlinkSync(path)\<close> for each path.\<close>

definition unlink_if_exists :: "server_state \<Rightarrow> string \<Rightarrow> server_state" where
  "unlink_if_exists s path = (if path \<in> files s then snd (unlinkSync path s) else s)"

definition downloadAndMergeWithFFmpeg ::
  "string \<Rightarrow> video_info \<Rightarrow> string \<Rightarrow> string \<Rightarrow> bool \<Rightarrow> session_env \<Rightarrow> server_state \<Rightarrow>
   unit outcome \<times> server_state" where
  "downloadAndMergeWithFFmpeg tempDir info ttl sessionId useBestQuality env s =
     (let videoPath = path_join tempDir (ttl @ ''_video_'' @ sessionId @ ''.mp4'');
          audioPath = path_join tempDir (ttl @ ''_audio_'' @ sessionId @ ''.m4a'');
          outputPath = path_join tempDir (ttl @ ''_merged_'' @ sessionId @ ''.mp4'')
      in case merge_try videoPath audioPath outputPath info ttl sessionId useBestQuality env s of
           (Resolved u, s') \<Rightarrow> (Resolved u, s')
         | (Rejected e, s') \<Rightarrow> (Rejected e, foldl unlink_if_exists s' [videoPath, audioPath, outputPath]))"

subsection \<open>The route handler\<close>

text \<open>The \<open>try\<close> block after the response has been sent.\<close>

definition pipeline ::
  "string \<Rightarrow> string \<Rightarrow> download_request \<Rightarrow> session_env \<Rightarrow> server_state \<Rightarrow> unit outcome \<times> server_state" where
  "pipeline tempDir sessionId req env s =
     (let s0 = emit (Begin GetInfo) s
      in case got_info env of
           Rejected msg \<Rightarrow> (Rejected msg, emit (Failed GetInfo msg) s0)
         | Resolved info \<Rightarrow>
             (let s1 = emit (End GetInfo) s0;
                  ttl = sanitize_title (title (videoDetails info))
              in if req_format req = VString ''mp3''
                 then downloadAudio tempDir ttl sessionId (req_itag req) (first_stream env) s1
                 else if req_itag req = VString ''ffmpeg-best'' \<or> req_itag req = VString ''ffmpeg-medium''
                 then downloadAndMergeWithFFmpeg tempDir info ttl sessionId
                        (req_itag req = VString ''ffmpeg-best'') env s1
                 else downloadRegularVideo tempDir ttl sessionId (req_itag req) info (first_stream env) s1))"

text \<open>The work after the response: the pipeline and the \<open>catch\<close> of the handler.\<close>

definition download_work ::
  "string \<Rightarrow> string \<Rightarrow> download_request \<Rightarrow> session_env \<Rightarrow> server_state \<Rightarrow> server_state" where
  "download_work tempDir sessionId req env s =
     (case pipeline tempDir sessionId req env s of
        (Resolved _, s') \<Rightarrow> s'
      | (Rejected msg, s') \<Rightarrow> set_progress sessionId (error_rec msg) s')"

definition started_response :: "string \<Rightarrow> response" where
  "started_response sessionId =
     Response 200
       (StartedBody True sessionId ''Download started. Use the session ID to track progress.'')"

text \<open>The handler up to its first \<open>await\<close>, for a URL that passed validation.\<close>

definition download_start :: "string \<Rightarrow> server_state \<Rightarrow> response \<times> server_state" where
  "download_start sessionId s =
     (let s1 = set_progress sessionId
                 (basic_rec ''initializing'' (JNum 0) ''Getting video information...'') s
      in (started_response sessionId, emit (Responded (started_response sessionId)) s1))"

text \<open>
  The whole handler; \<open>sessionId\<close> is what \<open>uuidv4()\<close> returned for this request.
\<close>

definition download_handler ::
  "(jsval \<Rightarrow> bool) \<Rightarrow> string \<Rightarrow> string \<Rightarrow> download_request \<Rightarrow> session_env \<Rightarrow> server_state \<Rightarrow>
   response \<times> server_state" where
  "download_handler validateURL tempDir sessionId req env s =
     (if \<not> validateURL (req_url req) then (Response 400 (ErrorBody ''Invalid YouTube URL''), s)
      else (case download_start sessionId s of
              (r, s1) \<Rightarrow> (r, download_work tempDir sessionId req env s1)))"

section \<open>Concrete sessions\<close>

text \<open>A finished session \<open>''s1''\<close> whose file is on disk, and the empty server.\<close>

definition initial_state :: server_state where
  "initial_state = \<lparr>downloadProgress = Map.empty, files = {}, trace = []\<rparr>"

definition finished_state :: server_state where
  "finished_state =
     \<lparr>downloadProgress =
        [''s1'' \<mapsto> completed_rec ''Download completed!'' ''temp/My_clip_s1.mp3'' ''My_clip.mp3''],
      files = {''temp/My_clip_s1.mp3''}, trace = []\<rparr>"

text \<open>
  A video with nine formats, and a session in which both streams and the merge succeed.
\<close>

definition fmt_1080_video :: yt_format where
  "fmt_1080_video =
     \<lparr>itag = 137, qualityLabel = Some ''1080p'', quality = ''hd1080'', container = ''mp4'',
      hasVideo = True, hasAudio = False, mimeType = Some ''video/mp4; codecs=avc1'',
      contentLength = Some 52428800, fps = Some 30, bitrate = Some 4000000,
      audioBitrate = None\<rparr>"

definition fmt_360_combined :: yt_format where
  "fmt_360_combined =
     \<lparr>itag = 18, qualityLabel = Some ''360p'', quality = ''medium'', container = ''mp4'',
      hasVideo = True, hasAudio = True, mimeType = Some ''video/mp4; codecs=avc1, mp4a'',
      contentLength = None, fps = Some 30, bitrate = Some 500000, audioBitrate = Some 96\<rparr>"

definition fmt_128_audio :: yt_format where
  "fmt_128_audio =
     \<lparr>itag = 140, qualityLabel = None, quality = ''tiny'', container = ''mp4'',
      hasVideo = False, hasAudio = True, mimeType = Some ''audio/mp4; codecs=mp4a'',
      contentLength = Some 3000000, fps = None, bitrate = Some 130000,
      audioBitrate = Some 128\<rparr>"

definition fmt_360_video :: yt_format where
  "fmt_360_video =
     \<lparr>itag = 134, qualityLabel = Some ''360p'', quality = ''medium'', container = ''mp4'',
      hasVideo = True, hasAudio = False, mimeType = Some ''video/mp4; codecs=avc1'',
      contentLength = Some 1000, fps = Some 30, bitrate = Some 400000, audioBitrate = None\<rparr>"

text \<open>Five more audio-only formats; the first reports no bitrate.\<close>

definition audio_fmt :: "int \<Rightarrow> int option \<Rightarrow> yt_format" where
  "audio_fmt i b =
     \<lparr>itag = i, qualityLabel = None, quality = ''tiny'', container = ''webm'',
      hasVideo = False, hasAudio = True, mimeType = Some ''audio/webm; codecs=opus'',
      contentLength = None, fps = None, bitrate = None, audioBitrate = b\<rparr>"

definition demo_info :: video_info where
  "demo_info =
     \<lparr>videoDetails = \<lparr>title = ''My clip!'', lengthSeconds = ''12'', thumbnail0 = None,
                       author_name = Some ''me'', viewCount = ''5''\<rparr>,
      formats = [fmt_360_video, audio_fmt 600 None, audio_fmt 139 (Some 48),
                 audio_fmt 251 (Some 160), audio_fmt 249 (Some 50), fmt_128_audio,
                 audio_fmt 250 (Some 70), fmt_360_combined, fmt_1080_video]\<rparr>"

definition demo_env :: session_env where
  "demo_env =
     \<lparr>got_info = Resolved demo_info,
      first_stream = \<lparr>chunks = [(10, 40), (40, 40)], stream_error = None\<rparr>,
      second_stream = \<lparr>chunks = [(5, 5)], stream_error = None\<rparr>,
      merging = \<lparr>merge_events = [\<lparr>ev_percent = JNum 50, ev_timemark = Some ''00:00:06'',
                                  ev_targetSize = Some (JNum 100)\<rparr>],
                 merge_ending = MergeEnd\<rparr>\<rparr>"

text \<open>
  Requests for that video: a merge request, an audio request, and an audio request that
  also names a merge preset. In \<open>failing_env\<close> the first stream breaks after one chunk.
\<close>

definition demo_url :: jsval where
  "demo_url = VString ''https://youtu.be/NY0u1DEKrug''"

definition merge_request :: download_request where
  "merge_request = \<lparr>req_url = demo_url, req_format = VUndefined, req_itag = VString ''ffmpeg-best''\<rparr>"

definition mp3_request :: download_request where
  "mp3_request = \<lparr>req_url = demo_url, req_format = VString ''mp3'', req_itag = VUndefined\<rparr>"

definition mp3_merge_request :: download_request where
  "mp3_merge_request =
     \<lparr>req_url = demo_url, req_format = VString ''mp3'', req_itag = VString ''ffmpeg-best''\<rparr>"

definition failing_env :: session_env where
  "failing_env = demo_env\<lparr>first_stream := \<lparr>chunks = [(1, 3)], stream_error = Some ''socket hang up''\<rparr>\<rparr>"


text \<open>A URL check that accepts exactly one URL.\<close>

definition demo_validateURL :: "jsval \<Rightarrow> bool" where
  "demo_validateURL u = (u = VString ''https://youtu.be/NY0u1DEKrug'')"

text \<open>
  When GET /api/file/:sessionId serves a file: the session has a record with status
  \<open>completed\<close> and the recorded path exists on disk.
\<close>

definition file_ready :: "server_state \<Rightarrow> string \<Rightarrow> bool" where
  "file_ready s sessionId =
     (case downloadProgress s sessionId of
        None \<Rightarrow> False
      | Some p \<Rightarrow> status p = Some ''completed'' \<and>
                  (case filePath p of None \<Rightarrow> False | Some fp \<Rightarrow> fp \<in> files s))"

section \<open>Orderings of the offered options\<close>

text \<open>
  What the claims about the option lists mean, said without the functions of the server.

  The number a string of decimal digits denotes.
\<close>

fun decimal :: "string \<Rightarrow> nat" where
  "decimal [] = 0"
| "decimal (c # cs) = (of_char c - of_char CHR ''0'') * 10 ^ length cs + decimal cs"

text \<open>
  The resolution height a quality text shows: at the first position of the text where
  decimal digits stand that are directly followed by the letter \<open>p\<close>, the number these
  digits denote (\<open>1080\<close> for \<open>1080p60 (combined)\<close>); 0 when there is no such position.
  \<open>height_here\<close> looks at the start of the text only.
\<close>

definition height_here :: "string \<Rightarrow> nat option" where
  "height_here q =
     (let ds = takeWhile (\<lambda>c. c \<in> set ''0123456789'') q
      in if ds \<noteq> [] \<and> take 1 (drop (length ds) q) = ''p'' then Some (decimal ds) else None)"

fun shown_height :: "string \<Rightarrow> nat" where
  "shown_height [] = 0"
| "shown_height (c # cs) =
     (case height_here (c # cs) of Some h \<Rightarrow> h | None \<Rightarrow> shown_height cs)"

text \<open>
  \<open>video_before a b\<close>: \<open>a\<close> may stand before \<open>b\<close> in the list of video options. Higher
  comes first; at equal height an option with audio is not preceded by one without.
  \<open>audio_before a b\<close>: the bitrate of \<open>a\<close> is not lower than that of \<open>b\<close>, a missing
  bitrate counting as 0.
\<close>

definition video_before :: "video_option \<Rightarrow> video_option \<Rightarrow> bool" where
  "video_before a b =
     (shown_height (o_quality b) < shown_height (o_quality a) \<or>
      (shown_height (o_quality a) = shown_height (o_quality b) \<and>
       (o_hasAudio a = Some True \<or> o_hasAudio b \<noteq> Some True)))"

definition audio_before :: "audio_option \<Rightarrow> audio_option \<Rightarrow> bool" where
  "audio_before a b =
     ((case a_bitrate b of None \<Rightarrow> 0 | Some n \<Rightarrow> n)
        \<le> (case a_bitrate a of None \<Rightarrow> 0 | Some n \<Rightarrow> n))"

text \<open>
  The same orders as sort keys, smaller first, for the library's stable sort \<open>sort_key\<close>:
  a video option ranks by descending height and then has-audio before has-none, an audio
  option by descending bitrate.
\<close>

definition video_rank :: "video_option \<Rightarrow> int \<times> bool" where
  "video_rank a = (- int (shown_height (o_quality a)), o_hasAudio a \<noteq> Some True)"

definition audio_rank :: "audio_option \<Rightarrow> int" where
  "audio_rank a = - (case a_bitrate a of None \<Rightarrow> 0 | Some n \<Rightarrow> n)"

section \<open>Sessions as event lists\<close>

text \<open>
  Every effect of a download session is one event; \<open>run_events\<close> performs a list of
  events on a state.
\<close>

fun apply_event :: "event \<Rightarrow> server_state \<Rightarrow> server_state" where
  "apply_event (Wrote k r) s = set_progress k r s"
| "apply_event (Created path) s = createWriteStream path s"
| "apply_event (Unlinked path) s = emit (Unlinked path) (s\<lparr>files := files s - {path}\<rparr>)"
| "apply_event (Responded r) s = emit (Responded r) s"
| "apply_event (Begin ph) s = emit (Begin ph) s"
| "apply_event (End ph) s = emit (End ph) s"
| "apply_event (Failed ph msg) s = emit (Failed ph msg) s"
| "apply_event (Selected i) s = emit (Selected i) s"
| "apply_event (Ytdl opts) s = emit (Ytdl opts) s"

definition run_events :: "event list \<Rightarrow> server_state \<Rightarrow> server_state" where
  "run_events evs s = foldl (\<lambda>s e. apply_event e s) s evs"

text \<open>The progress map after a list of events.\<close>

fun replay :: "event list \<Rightarrow> (string \<rightharpoonup> progress_rec) \<Rightarrow> (string \<rightharpoonup> progress_rec)" where
  "replay [] m = m"
| "replay (Wrote k r # evs) m = replay evs (m(k \<mapsto> r))"
| "replay (e # evs) m = replay evs m"

text \<open>
  A note is a write that reports progress of unfinished work; the stages of a session are
  its events without the notes.
\<close>

definition note_statuses :: "string option set" where
  "note_statuses = {Some ''initializing'', Some ''downloading'', Some ''merging''}"

fun is_note :: "event \<Rightarrow> bool" where
  "is_note (Wrote k r) = (status r \<in> note_statuses)"
| "is_note e = False"

definition stages :: "event list \<Rightarrow> event list" where
  "stages evs = filter (\<lambda>e. \<not> is_note e) evs"

text \<open>The phases begun, and the failures, in the order of the events.\<close>

fun begun :: "event list \<Rightarrow> phase list" where
  "begun [] = []"
| "begun (Begin ph # evs) = ph # begun evs"
| "begun (e # evs) = begun evs"

fun failures :: "event list \<Rightarrow> (phase \<times> string) list" where
  "failures [] = []"
| "failures (Failed ph msg # evs) = (ph, msg) # failures evs"
| "failures (e # evs) = failures evs"

text \<open>The events a handler added to the trace of \<open>s\<close> on the way to \<open>s'\<close>.\<close>

definition new_events :: "server_state \<Rightarrow> server_state \<Rightarrow> event list" where
  "new_events s s' = drop (length (trace s)) (trace s')"





subsection \<open>The events of each function\<close>

text \<open>
  What each function of a download session does, written as a list of events: the
  result of the function is the state after these events. \<open>cur\<close> is the progress record
  current when a stream starts, which its progress handler spreads into every write.
\<close>

definition stream_result :: "stream_run \<Rightarrow> unit outcome" where
  "stream_result run = (case stream_error run of None \<Rightarrow> Resolved () | Some msg \<Rightarrow> Rejected msg)"

definition stream_close :: "phase \<Rightarrow> event list \<Rightarrow> stream_run \<Rightarrow> event list" where
  "stream_close ph fin run = (case stream_error run of None \<Rightarrow> fin @ [End ph] | Some msg \<Rightarrow> [Failed ph msg])"

definition download_notes :: "string \<Rightarrow> string \<Rightarrow> (nat \<times> nat) list \<Rightarrow> event list" where
  "download_notes sessionId what cs =
     map (\<lambda>(downloaded, tot). Wrote sessionId (download_progress_rec what downloaded tot)) cs"

definition stream_note :: "string \<Rightarrow> progress_rec option \<Rightarrow> string \<Rightarrow> int \<Rightarrow> nat \<times> nat \<Rightarrow> event" where
  "stream_note sessionId cur streamType baseProgress c =
     (case c of (downloaded, tot) \<Rightarrow>
        Wrote sessionId
          (spread_progress cur (js_add baseProgress (round_ratio downloaded tot 25))
             (''Downloading '' @ streamType @ '' stream... '' @ show_num (round_ratio downloaded tot 100) @ ''%'')))"

definition ffmpeg_notes :: "string \<Rightarrow> ffmpeg_event list \<Rightarrow> event list" where
  "ffmpeg_notes sessionId evs = map (\<lambda>ev. Wrote sessionId (ffmpeg_rec ev)) evs"

text \<open>
  The files on disk after a list of events, and the deletions of the \<open>catch\<close> block of
  \<open>downloadAndMergeWithFFmpeg\<close> when the files \<open>F\<close> exist.
\<close>

fun disk_after :: "event list \<Rightarrow> string set \<Rightarrow> string set" where
  "disk_after [] F = F"
| "disk_after (Created path # evs) F = disk_after evs (insert path F)"
| "disk_after (Unlinked path # evs) F = disk_after evs (F - {path})"
| "disk_after (e # evs) F = disk_after evs F"

fun cleanup_events :: "string set \<Rightarrow> string list \<Rightarrow> event list" where
  "cleanup_events F [] = []"
| "cleanup_events F (path # paths) =
     (if path \<in> F then Unlinked path # cleanup_events (F - {path}) paths
      else cleanup_events F paths)"

definition audio_events :: "string \<Rightarrow> string \<Rightarrow> string \<Rightarrow> jsval \<Rightarrow> stream_run \<Rightarrow> event list" where
  "audio_events tempDir ttl sessionId itg run =
     [Begin DownloadAudio,
      Wrote sessionId (basic_rec ''downloading'' (JNum 0) ''Downloading audio...''),
      Ytdl \<lparr>filter_opt = Some ''audioonly'',
            quality_opt = (if truthy itg \<and> itg \<noteq> VString ''highest'' then itg
                           else VString ''highestaudio'')\<rparr>,
      Created (path_join tempDir (ttl @ ''_'' @ sessionId @ ''.mp3''))]
     @ download_notes sessionId ''audio'' (chunks run)
     @ stream_close DownloadAudio
         [Wrote sessionId (completed_rec ''Download completed!''
            (path_join tempDir (ttl @ ''_'' @ sessionId @ ''.mp3'')) (ttl @ ''.mp3''))] run"

definition regular_events ::
  "string \<Rightarrow> string \<Rightarrow> string \<Rightarrow> jsval \<Rightarrow> video_info \<Rightarrow> stream_run \<Rightarrow> event list" where
  "regular_events tempDir ttl sessionId itg info run =
     [Begin DownloadRegularVideo,
      Wrote sessionId (basic_rec ''downloading'' (JNum 0) ''Downloading video...''),
      Ytdl (regular_options itg info),
      Created (path_join tempDir (ttl @ ''_'' @ sessionId @ ''.mp4''))]
     @ download_notes sessionId ''video'' (chunks run)
     @ stream_close DownloadRegularVideo
         [Wrote sessionId (completed_rec ''Download completed!''
            (path_join tempDir (ttl @ ''_'' @ sessionId @ ''.mp4'')) (ttl @ ''.mp4''))] run"

definition video_stream_result :: "video_info \<Rightarrow> bool \<Rightarrow> stream_run \<Rightarrow> unit outcome" where
  "video_stream_result info useBestQuality run =
     (case select_video_format info useBestQuality of
        None \<Rightarrow> Rejected ''No video-only formats found''
      | Some f \<Rightarrow> stream_result run)"

definition video_stream_events ::
  "string \<Rightarrow> video_info \<Rightarrow> bool \<Rightarrow> string \<Rightarrow> string \<Rightarrow> progress_rec option \<Rightarrow> stream_run \<Rightarrow> event list" where
  "video_stream_events outputPath info useBestQuality sessionId streamType cur run =
     Begin DownloadVideoStream #
     (case select_video_format info useBestQuality of
        None \<Rightarrow> [Failed DownloadVideoStream ''No video-only formats found'']
      | Some f \<Rightarrow>
          [Selected (itag f), Ytdl \<lparr>filter_opt = None, quality_opt = VNumber (itag f)\<rparr>,
           Created outputPath]
          @ map (stream_note sessionId cur streamType (if streamType = ''video'' then 0 else 50)) (chunks run)
          @ stream_close DownloadVideoStream [] run)"

definition audio_stream_events ::
  "string \<Rightarrow> string \<Rightarrow> string \<Rightarrow> progress_rec option \<Rightarrow> stream_run \<Rightarrow> event list" where
  "audio_stream_events outputPath sessionId streamType cur run =
     [Begin DownloadAudioStream,
      Ytdl \<lparr>filter_opt = Some ''audioonly'', quality_opt = VString ''highestaudio''\<rparr>,
      Created outputPath]
     @ map (stream_note sessionId cur streamType 50) (chunks run)
     @ stream_close DownloadAudioStream [] run"

definition ffmpeg_result :: "merge_run \<Rightarrow> unit outcome" where
  "ffmpeg_result run = (case merge_ending run of MergeEnd \<Rightarrow> Resolved () | MergeError msg left \<Rightarrow> Rejected msg)"

definition ffmpeg_events :: "string \<Rightarrow> string \<Rightarrow> merge_run \<Rightarrow> event list" where
  "ffmpeg_events outputPath sessionId run =
     Begin MergeWithFFmpeg # ffmpeg_notes sessionId (merge_events run)
     @ (case merge_ending run of
          MergeEnd \<Rightarrow> [Created outputPath, End MergeWithFFmpeg]
        | MergeError msg left \<Rightarrow>
            (if left then [Created outputPath] else []) @ [Failed MergeWithFFmpeg msg])"

definition merge_try_result :: "video_info \<Rightarrow> bool \<Rightarrow> session_env \<Rightarrow> unit outcome" where
  "merge_try_result info useBestQuality env =
     (case video_stream_result info useBestQuality (first_stream env) of
        Rejected e \<Rightarrow> Rejected e
      | Resolved _ \<Rightarrow>
          (case stream_result (second_stream env) of
             Rejected e \<Rightarrow> Rejected e
           | Resolved _ \<Rightarrow> ffmpeg_result (merging env)))"

definition merge_try_events ::
  "string \<Rightarrow> string \<Rightarrow> string \<Rightarrow> video_info \<Rightarrow> string \<Rightarrow> string \<Rightarrow> bool \<Rightarrow> session_env \<Rightarrow> event list" where
  "merge_try_events videoPath audioPath outputPath info ttl sessionId useBestQuality env =
     Wrote sessionId (basic_rec ''downloading'' (JNum 0) ''Downloading video stream...'') #
     video_stream_events videoPath info useBestQuality sessionId ''video''
       (Some (basic_rec ''downloading'' (JNum 0) ''Downloading video stream...'')) (first_stream env)
     @ (case video_stream_result info useBestQuality (first_stream env) of
          Rejected e \<Rightarrow> []
        | Resolved _ \<Rightarrow>
            Wrote sessionId (basic_rec ''downloading'' (JNum 50) ''Downloading audio stream...'') #
            audio_stream_events audioPath sessionId ''audio''
              (Some (basic_rec ''downloading'' (JNum 50) ''Downloading audio stream...''))
              (second_stream env)
            @ (case stream_result (second_stream env) of
                 Rejected e \<Rightarrow> []
               | Resolved _ \<Rightarrow>
                   Wrote sessionId
                     (basic_rec ''merging'' (JNum 75) ''Merging video and audio with FFmpeg...'') #
                   ffmpeg_events outputPath sessionId (merging env)
                   @ (case ffmpeg_result (merging env) of
                        Rejected e \<Rightarrow> []
                      | Resolved _ \<Rightarrow>
                          [Unlinked videoPath, Unlinked audioPath,
                           Wrote sessionId
                             (completed_rec ''Download and merge completed!'' outputPath
                                (ttl @ ''_merged.mp4''))])))"

text \<open>No event of the list deletes a file.\<close>

definition keeps_files :: "event list \<Rightarrow> bool" where
  "keeps_files evs = (\<forall>q. Unlinked q \<notin> set evs)"

text \<open>
  The events of \<open>downloadAndMergeWithFFmpeg\<close>, of the \<open>try\<close> block of the handler, of
  the work after the response, and of the whole handler; \<open>F\<close> is the set of files on
  disk when the session starts. The results are what the promises settle to.
\<close>

definition merge_session_events ::
  "string \<Rightarrow> video_info \<Rightarrow> string \<Rightarrow> string \<Rightarrow> bool \<Rightarrow> session_env \<Rightarrow> string set \<Rightarrow> event list" where
  "merge_session_events tempDir info ttl sessionId useBestQuality env F =
     (let videoPath = path_join tempDir (ttl @ ''_video_'' @ sessionId @ ''.mp4'');
          audioPath = path_join tempDir (ttl @ ''_audio_'' @ sessionId @ ''.m4a'');
          outputPath = path_join tempDir (ttl @ ''_merged_'' @ sessionId @ ''.mp4'');
          evs = merge_try_events videoPath audioPath outputPath info ttl sessionId useBestQuality env
      in case merge_try_result info useBestQuality env of
           Resolved u \<Rightarrow> evs
         | Rejected e \<Rightarrow> evs @ cleanup_events (disk_after evs F) [videoPath, audioPath, outputPath])"

definition pipeline_result :: "download_request \<Rightarrow> session_env \<Rightarrow> unit outcome" where
  "pipeline_result req env =
     (case got_info env of
        Rejected msg \<Rightarrow> Rejected msg
      | Resolved info \<Rightarrow>
          if req_format req = VString ''mp3'' then stream_result (first_stream env)
          else if req_itag req = VString ''ffmpeg-best'' \<or> req_itag req = VString ''ffmpeg-medium''
          then merge_try_result info (req_itag req = VString ''ffmpeg-best'') env
          else stream_result (first_stream env))"

definition pipeline_events ::
  "string \<Rightarrow> string \<Rightarrow> download_request \<Rightarrow> session_env \<Rightarrow> string set \<Rightarrow> event list" where
  "pipeline_events tempDir sessionId req env F =
     Begin GetInfo #
     (case got_info env of
        Rejected msg \<Rightarrow> [Failed GetInfo msg]
      | Resolved info \<Rightarrow>
          End GetInfo #
          (let ttl = sanitize_title (title (videoDetails info))
           in if req_format req = VString ''mp3''
              then audio_events tempDir ttl sessionId (req_itag req) (first_stream env)
              else if req_itag req = VString ''ffmpeg-best'' \<or> req_itag req = VString ''ffmpeg-medium''
              then merge_session_events tempDir info ttl sessionId
                     (req_itag req = VString ''ffmpeg-best'') env F
              else regular_events tempDir ttl sessionId (req_itag req) info (first_stream env)))"

definition work_events ::
  "string \<Rightarrow> string \<Rightarrow> download_request \<Rightarrow> session_env \<Rightarrow> string set \<Rightarrow> event list" where
  "work_events tempDir sessionId req env F =
     pipeline_events tempDir sessionId req env F
     @ (case pipeline_result req env of
          Resolved u \<Rightarrow> []
        | Rejected msg \<Rightarrow> [Wrote sessionId (error_rec msg)])"

definition session_events ::
  "string \<Rightarrow> string \<Rightarrow> download_request \<Rightarrow> session_env \<Rightarrow> string set \<Rightarrow> event list" where
  "session_events tempDir sessionId req env F =
     Wrote sessionId (basic_rec ''initializing'' (JNum 0) ''Getting video information...'') #
     Responded (started_response sessionId) #
     work_events tempDir sessionId req env F"

text \<open>
  The stages of a merge session in which nothing fails, for the sanitized title \<open>ttl\<close>
  and the selected format's itag \<open>i\<close>.
\<close>

definition merge_stages :: "string \<Rightarrow> string \<Rightarrow> string \<Rightarrow> int \<Rightarrow> event list" where
  "merge_stages tempDir sessionId ttl i =
     (let videoPath = path_join tempDir (ttl @ ''_video_'' @ sessionId @ ''.mp4'');
          audioPath = path_join tempDir (ttl @ ''_audio_'' @ sessionId @ ''.m4a'');
          outputPath = path_join tempDir (ttl @ ''_merged_'' @ sessionId @ ''.mp4'')
      in [Responded (started_response sessionId),
          Begin GetInfo, End GetInfo,
          Begin DownloadVideoStream, Selected i,
          Ytdl \<lparr>filter_opt = None, quality_opt = VNumber i\<rparr>, Created videoPath,
          End DownloadVideoStream,
          Begin DownloadAudioStream,
          Ytdl \<lparr>filter_opt = Some ''audioonly'', quality_opt = VString ''highestaudio''\<rparr>,
          Created audioPath, End DownloadAudioStream,
          Begin MergeWithFFmpeg, Created outputPath, End MergeWithFFmpeg,
          Unlinked videoPath, Unlinked audioPath,
          Wrote sessionId
            (completed_rec ''Download and merge completed!'' outputPath (ttl @ ''_merged.mp4''))])"

text \<open>
  The same stages in the order that marks the record completed before the two
  intermediate files are deleted.
\<close>

definition claimed_merge_stages :: "string \<Rightarrow> string \<Rightarrow> string \<Rightarrow> int \<Rightarrow> event list" where
  "claimed_merge_stages tempDir sessionId ttl i =
     (let videoPath = path_join tempDir (ttl @ ''_video_'' @ sessionId @ ''.mp4'');
          audioPath = path_join tempDir (ttl @ ''_audio_'' @ sessionId @ ''.m4a'');
          outputPath = path_join tempDir (ttl @ ''_merged_'' @ sessionId @ ''.mp4'')
      in [Responded (started_response sessionId),
          Begin GetInfo, End GetInfo,
          Begin DownloadVideoStream, Selected i,
          Ytdl \<lparr>filter_opt = None, quality_opt = VNumber i\<rparr>, Created videoPath,
          End DownloadVideoStream,
          Begin DownloadAudioStream,
          Ytdl \<lparr>filter_opt = Some ''audioonly'', quality_opt = VString ''highestaudio''\<rparr>,
          Created audioPath, End DownloadAudioStream,
          Begin MergeWithFFmpeg, Created outputPath, End MergeWithFFmpeg,
          Wrote sessionId
            (completed_rec ''Download and merge completed!'' outputPath (ttl @ ''_merged.mp4'')),
          Unlinked videoPath, Unlinked audioPath])"

section \<open>The operations of the server\<close>



section \<open>Properties\<close>

subsection \<open>A session is the run of its events\<close>

lemma run_events_Nil [simp]: "run_events [] s = s"
  by (simp add: run_events_def)

lemma run_events_Cons: "run_events (e # evs) s = run_events evs (apply_event e s)"
  by (simp add: run_events_def)

lemma run_events_append: "run_events (a @ b) s = run_events b (run_events a s)"
  by (simp add: run_events_def)

lemma trace_apply_event: "trace (apply_event e s) = trace s @ [e]"
  by (cases e) (simp_all add: emit_def set_progress_def createWriteStream_def)

lemma trace_run_events: "trace (run_events evs s) = trace s @ evs"
  by (induction evs arbitrary: s) (simp_all add: trace_apply_event run_events_Cons)

lemma new_events_run_events: "new_events s (run_events evs s) = evs"
  by (simp add: new_events_def trace_run_events)

lemma progress_apply_event:
  "downloadProgress (apply_event e s) = replay [e] (downloadProgress s)"
  by (cases e) (simp_all add: emit_def set_progress_def createWriteStream_def)

lemma replay_append: "replay (a @ b) m = replay b (replay a m)"
proof (induction a arbitrary: m)
  case Nil
  show ?case by simp
next
  case (Cons e a)
  then show ?case by (cases e) (simp_all add: fun_upd_def)
qed

lemma progress_run_events: "downloadProgress (run_events evs s) = replay evs (downloadProgress s)"
proof (induction evs arbitrary: s)
  case Nil
  show ?case by simp
next
  case (Cons e evs)
  have "replay (e # evs) m = replay evs (replay [e] m)" for m
    using replay_append [of "[e]" evs m] by simp
  with Cons show ?case by (simp add: progress_apply_event run_events_Cons)
qed

lemma set_progress_run: "set_progress k r s = run_events [Wrote k r] s"
  by (simp add: run_events_Cons)

lemma createWriteStream_run: "createWriteStream path s = run_events [Created path] s"
  by (simp add: run_events_Cons)

lemma emit_run:
  "emit (Begin ph) s = run_events [Begin ph] s"
  "emit (End ph) s = run_events [End ph] s"
  "emit (Failed ph msg) s = run_events [Failed ph msg] s"
  "emit (Selected i) s = run_events [Selected i] s"
  "emit (Ytdl opts) s = run_events [Ytdl opts] s"
  "emit (Responded r) s = run_events [Responded r] s"
  by (simp_all add: run_events_Cons)

lemma run_run: "run_events b (run_events a s) = run_events (a @ b) s"
  by (simp add: run_events_append)

lemma fold_download_notes:
  "foldl (\<lambda>s (downloaded, tot). set_progress sessionId (download_progress_rec what downloaded tot) s) s cs
     = run_events (download_notes sessionId what cs) s"
  by (induction cs arbitrary: s) (auto simp: download_notes_def run_events_Cons)

lemma fold_ffmpeg_notes:
  "foldl (\<lambda>s ev. set_progress sessionId (ffmpeg_rec ev) s) s evs = run_events (ffmpeg_notes sessionId evs) s"
  by (induction evs arbitrary: s) (auto simp: ffmpeg_notes_def run_events_Cons)

lemma fold_download_notes_run:
  "foldl (\<lambda>s (downloaded, tot). run_events [Wrote sessionId (download_progress_rec what downloaded tot)] s) s cs
     = run_events (download_notes sessionId what cs) s"
  using fold_download_notes [of sessionId what s cs] by (simp add: set_progress_run)

lemma fold_ffmpeg_notes_run:
  "foldl (\<lambda>s ev. run_events [Wrote sessionId (ffmpeg_rec ev)] s) s evs = run_events (ffmpeg_notes sessionId evs) s"
  using fold_ffmpeg_notes [of sessionId s evs] by (simp add: set_progress_run)

lemma spread_spread:
  "spread_progress (Some (spread_progress cur p sg)) p' sg' = spread_progress cur p' sg'"
  by (simp add: spread_progress_def)

lemma stream_note_spread:
  "stream_note sessionId (Some (spread_progress cur p sg)) streamType b
     = stream_note sessionId cur streamType b"
  by (rule ext) (simp add: stream_note_def spread_spread split: prod.splits)

lemma stream_on_progress_event:
  "stream_on_progress sessionId streamType b s c
     = apply_event (stream_note sessionId (downloadProgress s sessionId) streamType b c) s"
  by (cases c) (simp add: stream_on_progress_def stream_note_def)

lemma progress_after_stream_note:
  "\<exists>p sg. downloadProgress (stream_on_progress sessionId streamType b s c) sessionId
     = Some (spread_progress (downloadProgress s sessionId) p sg)"
  by (cases c) (auto simp: stream_on_progress_def set_progress_def emit_def)

lemma fold_stream_notes:
  "foldl (stream_on_progress sessionId streamType b) s cs
     = run_events (map (stream_note sessionId (downloadProgress s sessionId) streamType b) cs) s"
proof (induction cs arbitrary: s)
  case Nil
  show ?case by simp
next
  case (Cons c cs)
  let ?s1 = "stream_on_progress sessionId streamType b s c"
  obtain p sg where cur: "downloadProgress ?s1 sessionId
      = Some (spread_progress (downloadProgress s sessionId) p sg)"
    using progress_after_stream_note by blast
  have "foldl (stream_on_progress sessionId streamType b) s (c # cs)
          = foldl (stream_on_progress sessionId streamType b) ?s1 cs"
    by simp
  also have "\<dots> = run_events (map (stream_note sessionId (downloadProgress ?s1 sessionId) streamType b) cs) ?s1"
    by (rule Cons.IH)
  also have "\<dots> = run_events (map (stream_note sessionId (downloadProgress s sessionId) streamType b) cs) ?s1"
    by (simp only: cur stream_note_spread)
  also have "\<dots> = run_events (map (stream_note sessionId (downloadProgress s sessionId) streamType b) (c # cs)) s"
    by (simp only: list.map run_events_Cons stream_on_progress_event)
  finally show ?case .
qed

lemmas to_events = set_progress_run createWriteStream_run emit_run run_run
  fold_download_notes_run fold_ffmpeg_notes_run

lemma downloadAudio_run:
  "downloadAudio tempDir ttl sessionId itg run s
     = (stream_result run, run_events (audio_events tempDir ttl sessionId itg run) s)"
  by (simp add: downloadAudio_def run_stream_def Let_def fold_download_notes to_events
        audio_events_def stream_result_def stream_close_def split: option.splits)

lemma downloadRegularVideo_run:
  "downloadRegularVideo tempDir ttl sessionId itg info run s
     = (stream_result run, run_events (regular_events tempDir ttl sessionId itg info run) s)"
  by (simp add: downloadRegularVideo_def run_stream_def Let_def fold_download_notes to_events
        regular_events_def stream_result_def stream_close_def split: option.splits)

lemma progress_run_no_write:
  "downloadProgress (run_events [Begin ph] s) = downloadProgress s"
  "downloadProgress (run_events [Selected i] s) = downloadProgress s"
  "downloadProgress (run_events [Ytdl opts] s) = downloadProgress s"
  "downloadProgress (run_events [Created path] s) = downloadProgress s"
  by (simp_all add: progress_run_events)

lemma downloadVideoStream_run:
  "downloadVideoStream outputPath info useBestQuality sessionId streamType run s
     = (video_stream_result info useBestQuality run,
        run_events (video_stream_events outputPath info useBestQuality sessionId streamType
                      (downloadProgress s sessionId) run) s)"
  by (simp add: downloadVideoStream_def run_stream_def Let_def fold_stream_notes to_events
        video_stream_events_def video_stream_result_def stream_result_def stream_close_def
        progress_run_events
        split: option.splits)

lemma downloadAudioStream_run:
  "downloadAudioStream outputPath sessionId streamType run s
     = (stream_result run,
        run_events (audio_stream_events outputPath sessionId streamType
                      (downloadProgress s sessionId) run) s)"
  by (simp add: downloadAudioStream_def run_stream_def Let_def fold_stream_notes to_events
        audio_stream_events_def stream_result_def stream_close_def progress_run_events
        split: option.splits)

lemma mergeWithFFmpeg_run:
  "mergeWithFFmpeg videoPath audioPath outputPath sessionId run s
     = (ffmpeg_result run, run_events (ffmpeg_events outputPath sessionId run) s)"
  by (simp add: mergeWithFFmpeg_def Let_def fold_ffmpeg_notes to_events
        ffmpeg_events_def ffmpeg_result_def split: merge_end.splits)

lemma disk_after_append: "disk_after (a @ b) F = disk_after b (disk_after a F)"
proof (induction a arbitrary: F)
  case Nil
  show ?case by simp
next
  case (Cons e a)
  then show ?case by (cases e) simp_all
qed

lemma files_apply_event: "files (apply_event e s) = disk_after [e] (files s)"
  by (cases e) (simp_all add: emit_def set_progress_def createWriteStream_def)

lemma files_run_events: "files (run_events evs s) = disk_after evs (files s)"
proof (induction evs arbitrary: s)
  case Nil
  show ?case by simp
next
  case (Cons e evs)
  have "disk_after (e # evs) F = disk_after evs (disk_after [e] F)" for F
    using disk_after_append [of "[e]" evs F] by simp
  with Cons show ?case by (simp add: files_apply_event run_events_Cons)
qed

lemma unlinkSync_run:
  "path \<in> files s \<Longrightarrow> unlinkSync path s = (Resolved (), run_events [Unlinked path] s)"
  by (simp add: unlinkSync_def run_events_Cons)

lemma disk_after_keeps: "keeps_files evs \<Longrightarrow> F \<subseteq> disk_after evs F"
proof (induction evs arbitrary: F)
  case Nil
  show ?case by simp
next
  case (Cons e evs)
  then have k: "keeps_files evs" by (simp add: keeps_files_def)
  show ?case
  proof (cases e)
    case (Created p)
    have "insert p F \<subseteq> disk_after evs (insert p F)" using Cons.IH [OF k] .
    with Created show ?thesis by auto
  next
    case (Unlinked p)
    with Cons.prems show ?thesis by (auto simp: keeps_files_def)
  qed (use Cons.IH [OF k] in simp_all)
qed

lemma created_stays:
  "keeps_files evs \<Longrightarrow> Created p \<in> set evs \<Longrightarrow> p \<in> disk_after evs F"
proof (induction evs arbitrary: F)
  case Nil
  then show ?case by simp
next
  case (Cons e evs)
  then have k: "keeps_files evs" by (simp add: keeps_files_def)
  show ?case
  proof (cases "e = Created p")
    case True
    with disk_after_keeps [OF k, of "insert p F"] show ?thesis by auto
  next
    case False
    with Cons.prems have "Created p \<in> set evs" by simp
    from Cons.IH [OF k this] have "\<And>G. p \<in> disk_after evs G" .
    then show ?thesis using Cons.prems(1) by (cases e) (simp_all add: keeps_files_def)
  qed
qed

lemma keeps_files_simps:
  "keeps_files []"
  "keeps_files (a @ b) \<longleftrightarrow> keeps_files a \<and> keeps_files b"
  "keeps_files (e # evs) \<longleftrightarrow> (\<forall>q. e \<noteq> Unlinked q) \<and> keeps_files evs"
  by (auto simp: keeps_files_def)

lemma keeps_files_stream_notes: "keeps_files (map (stream_note sessionId cur streamType b) cs)"
  by (auto simp: keeps_files_def stream_note_def split: prod.splits)

lemma keeps_files_ffmpeg_notes: "keeps_files (ffmpeg_notes sessionId evs)"
  by (auto simp: keeps_files_def ffmpeg_notes_def)

lemma keeps_files_video_stream:
  "keeps_files (video_stream_events p info ub sessionId st cur run)"
  by (simp add: video_stream_events_def keeps_files_simps keeps_files_stream_notes stream_close_def
        split: option.splits)

lemma keeps_files_audio_stream:
  "keeps_files (audio_stream_events p sessionId st cur run)"
  by (simp add: audio_stream_events_def keeps_files_simps keeps_files_stream_notes stream_close_def
        split: option.splits)

lemma keeps_files_ffmpeg: "keeps_files (ffmpeg_events p sessionId run)"
  by (simp add: ffmpeg_events_def keeps_files_simps keeps_files_ffmpeg_notes
        split: merge_end.splits)

lemma created_video_stream:
  "video_stream_result info ub run = Resolved u \<Longrightarrow>
     Created p \<in> set (video_stream_events p info ub sessionId st cur run)"
  by (auto simp: video_stream_events_def video_stream_result_def split: option.splits)

lemma created_audio_stream: "Created p \<in> set (audio_stream_events p sessionId st cur run)"
  by (simp add: audio_stream_events_def)

lemma merge_try_run:
  assumes ne: "videoPath \<noteq> audioPath"
  shows "merge_try videoPath audioPath outputPath info ttl sessionId useBestQuality env s
     = (merge_try_result info useBestQuality env,
        run_events (merge_try_events videoPath audioPath outputPath info ttl sessionId useBestQuality env) s)"
proof -
  let ?r0 = "basic_rec ''downloading'' (JNum 0) ''Downloading video stream...''"
  let ?r50 = "basic_rec ''downloading'' (JNum 50) ''Downloading audio stream...''"
  let ?r75 = "basic_rec ''merging'' (JNum 75) ''Merging video and audio with FFmpeg...''"
  let ?V = "video_stream_events videoPath info useBestQuality sessionId ''video'' (Some ?r0) (first_stream env)"
  let ?A = "audio_stream_events audioPath sessionId ''audio'' (Some ?r50) (second_stream env)"
  let ?M = "ffmpeg_events outputPath sessionId (merging env)"
  let ?s1 = "set_progress sessionId ?r0 s"
  have cur1: "downloadProgress ?s1 sessionId = Some ?r0"
    by (simp add: set_progress_def emit_def)
  have v: "downloadVideoStream videoPath info useBestQuality sessionId ''video'' (first_stream env) ?s1
             = (video_stream_result info useBestQuality (first_stream env), run_events (Wrote sessionId ?r0 # ?V) s)"
    by (simp add: downloadVideoStream_run cur1) (simp add: to_events)
  show ?thesis
  proof (cases "video_stream_result info useBestQuality (first_stream env)")
    case (Rejected e)
    then show ?thesis
      by (simp add: merge_try_def Let_def v merge_try_result_def merge_try_events_def)
  next
    case vr: (Resolved u)
    let ?s2 = "run_events (Wrote sessionId ?r0 # ?V) s"
    let ?s3 = "set_progress sessionId ?r50 ?s2"
    have cur3: "downloadProgress ?s3 sessionId = Some ?r50"
      by (simp add: set_progress_def emit_def)
    have a: "downloadAudioStream audioPath sessionId ''audio'' (second_stream env) ?s3
               = (stream_result (second_stream env),
                  run_events (Wrote sessionId ?r0 # ?V @ Wrote sessionId ?r50 # ?A) s)"
      by (simp add: downloadAudioStream_run cur3) (simp add: to_events)
    show ?thesis
    proof (cases "stream_result (second_stream env)")
      case (Rejected e)
      then show ?thesis
        by (simp add: merge_try_def Let_def v vr a merge_try_result_def merge_try_events_def)
    next
      case ar: (Resolved u')
      let ?s4 = "run_events (Wrote sessionId ?r0 # ?V @ Wrote sessionId ?r50 # ?A) s"
      let ?s5 = "set_progress sessionId ?r75 ?s4"
      let ?E = "Wrote sessionId ?r0 # ?V @ Wrote sessionId ?r50 # ?A @ Wrote sessionId ?r75 # ?M"
      have m: "mergeWithFFmpeg videoPath audioPath outputPath sessionId (merging env) ?s5
                 = (ffmpeg_result (merging env), run_events ?E s)"
        by (simp add: mergeWithFFmpeg_run) (simp add: to_events)
      show ?thesis
      proof (cases "ffmpeg_result (merging env)")
        case (Rejected e)
        then show ?thesis
          by (simp add: merge_try_def Let_def v vr a ar m merge_try_result_def merge_try_events_def)
      next
        case mr: (Resolved u'')
        have keeps: "keeps_files ?E"
          by (simp add: keeps_files_simps keeps_files_video_stream keeps_files_audio_stream
                keeps_files_ffmpeg)
        have "Created videoPath \<in> set ?E"
          using created_video_stream [OF vr] by simp
        from created_stays [OF keeps this]
        have vin: "videoPath \<in> files (run_events ?E s)"
          by (simp add: files_run_events)
        have "Created audioPath \<in> set ?E"
          using created_audio_stream by simp
        from created_stays [OF keeps this]
        have adisk: "audioPath \<in> disk_after ?E (files s)" .
        let ?E1 = "Wrote sessionId ?r0 # ?V @ Wrote sessionId ?r50 # ?A @ Wrote sessionId ?r75 # ?M
                     @ [Unlinked videoPath]"
        let ?E2 = "Wrote sessionId ?r0 # ?V @ Wrote sessionId ?r50 # ?A @ Wrote sessionId ?r75 # ?M
                     @ [Unlinked videoPath, Unlinked audioPath]"
        have e1: "?E @ [Unlinked videoPath] = ?E1" by simp
        have e2: "?E1 @ [Unlinked audioPath] = ?E2" by simp
        from ne adisk
        have ain: "audioPath \<in> files (run_events ?E1 s)"
          unfolding e1 [symmetric] by (simp add: files_run_events disk_after_append)
        have u1: "unlinkSync videoPath (run_events ?E s) = (Resolved (), run_events ?E1 s)"
          using unlinkSync_run [OF vin] unfolding run_run e1 .
        have u2: "unlinkSync audioPath (run_events ?E1 s) = (Resolved (), run_events ?E2 s)"
          using unlinkSync_run [OF ain] unfolding run_run e2 .
        show ?thesis
          by (simp add: merge_try_def Let_def v vr a ar m mr u1 u2 merge_try_result_def
                merge_try_events_def)
             (simp add: to_events)
      qed
    qed
  qed
qed

lemma unlink_if_exists_run:
  "unlink_if_exists s path = run_events (cleanup_events (files s) [path]) s"
  by (simp add: unlink_if_exists_def unlinkSync_def run_events_Cons)

lemma cleanup_run:
  "foldl unlink_if_exists s paths = run_events (cleanup_events (files s) paths) s"
proof (induction paths arbitrary: s)
  case Nil
  show ?case by simp
next
  case (Cons p paths)
  show ?case
  proof (cases "p \<in> files s")
    case True
    then have "unlink_if_exists s p = run_events [Unlinked p] s"
      by (simp add: unlink_if_exists_run)
    moreover have "files (run_events [Unlinked p] s) = files s - {p}"
      by (simp add: files_run_events)
    ultimately show ?thesis
      using True by (simp add: Cons.IH run_run)
  next
    case False
    then have "unlink_if_exists s p = s"
      by (simp add: unlink_if_exists_def)
    with False show ?thesis by (simp add: Cons.IH)
  qed
qed

lemma session_paths_differ:
  "path_join tempDir (ttl @ ''_video_'' @ sessionId @ ''.mp4'')
     \<noteq> path_join tempDir (ttl @ ''_audio_'' @ sessionId @ ''.m4a'')"
  by (simp add: path_join_def)

lemma downloadAndMergeWithFFmpeg_run:
  "downloadAndMergeWithFFmpeg tempDir info ttl sessionId useBestQuality env s
     = (merge_try_result info useBestQuality env,
        run_events (merge_session_events tempDir info ttl sessionId useBestQuality env (files s)) s)"
proof -
  define v where "v = path_join tempDir (ttl @ ''_video_'' @ sessionId @ ''.mp4'')"
  define a where "a = path_join tempDir (ttl @ ''_audio_'' @ sessionId @ ''.m4a'')"
  define out where "out = path_join tempDir (ttl @ ''_merged_'' @ sessionId @ ''.mp4'')"
  have ne: "v \<noteq> a"
    unfolding v_def a_def by (rule session_paths_differ)
  note mt = merge_try_run [OF ne, of out info ttl sessionId useBestQuality env s]
  have cl: "unlink_if_exists (unlink_if_exists (unlink_if_exists s' v) a) out
              = run_events (cleanup_events (files s') [v, a, out]) s'" for s'
    using cleanup_run [of s' "[v, a, out]"] by (simp del: cleanup_events.simps)
  show ?thesis
    unfolding downloadAndMergeWithFFmpeg_def merge_session_events_def Let_def
      v_def [symmetric] a_def [symmetric] out_def [symmetric]
    by (simp add: mt cl files_run_events run_run
          del: cleanup_events.simps split: outcome.splits)
qed

lemma pipeline_run:
  "pipeline tempDir sessionId req env s
     = (pipeline_result req env, run_events (pipeline_events tempDir sessionId req env (files s)) s)"
proof (cases "got_info env")
  case (Rejected msg)
  then show ?thesis
    by (simp add: pipeline_def pipeline_result_def pipeline_events_def Let_def to_events)
next
  case (Resolved info)
  have f: "files (emit (End GetInfo) (emit (Begin GetInfo) s)) = files s"
    by (simp add: emit_def)
  have e: "emit (End GetInfo) (emit (Begin GetInfo) s) = run_events [Begin GetInfo, End GetInfo] s"
    by (simp add: to_events)
  show ?thesis
    unfolding pipeline_def pipeline_result_def pipeline_events_def Let_def
    by (simp add: Resolved downloadAudio_run downloadRegularVideo_run
          downloadAndMergeWithFFmpeg_run f)
       (simp add: e run_run)
qed

lemma download_work_run:
  "download_work tempDir sessionId req env s
     = run_events (work_events tempDir sessionId req env (files s)) s"
  by (simp add: download_work_def pipeline_run work_events_def to_events split: outcome.splits)

lemma download_handler_run:
  "download_handler validateURL tempDir sessionId req env s
     = (if \<not> validateURL (req_url req) then (Response 400 (ErrorBody ''Invalid YouTube URL''), s)
        else (started_response sessionId,
              run_events (session_events tempDir sessionId req env (files s)) s))"
proof -
  have "files (emit (Responded r) (set_progress sessionId p s)) = files s" for r p
    by (simp add: emit_def set_progress_def)
  then show ?thesis
    by (simp add: download_handler_def download_start_def Let_def download_work_run
          session_events_def)
       (simp add: to_events)
qed

subsection \<open>The handlers for progress, files and URLs\<close>

text \<open>
  C10. GET /api/progress/:sessionId for a session id that has no entry in the progress map
  answers HTTP 200 with the body \<open>{status: 'not_found'}\<close>, and the state (so also the
  map, which gets no new entry) is what it was.
\<close>

theorem progress_unknown_session:
  "downloadProgress s sessionId = None \<Longrightarrow>
     progress_handler sessionId s = (Response 200 NotFoundBody, s)"
  by (simp add: progress_handler_def)

theorem progress_unknown_session_witness:
  "downloadProgress initial_state ''s1'' = None \<and>
   progress_handler ''s1'' initial_state = (Response 200 NotFoundBody, initial_state)"
  using progress_unknown_session [of initial_state "''s1''"]
  by (simp add: initial_state_def)

text \<open>
  C9. GET /api/file/:sessionId answers 200 and serves the recorded path under the recorded
  file name exactly when the session has a record with status \<open>completed\<close> whose file
  path exists on disk; otherwise it answers 404 with an error body. In both cases the
  handler leaves the state (progress map and disk) as it was.
\<close>

theorem file_handler_serves_iff_ready:
  "(code (fst (file_handler sessionId s)) = 200 \<longleftrightarrow> file_ready s sessionId) \<and>
   (file_ready s sessionId \<longrightarrow>
      (\<exists>p fp. downloadProgress s sessionId = Some p \<and> filePath p = Some fp \<and>
         file_handler sessionId s = (Response 200 (FileDownload fp (filename p)), s))) \<and>
   (\<not> file_ready s sessionId \<longrightarrow>
      code (fst (file_handler sessionId s)) = 404 \<and>
      (\<exists>msg. payload (fst (file_handler sessionId s)) = ErrorBody msg) \<and>
      snd (file_handler sessionId s) = s)"
  by (auto simp: file_handler_def file_ready_def split: option.splits)

theorem file_handler_serves_iff_ready_witness:
  "file_ready finished_state ''s1'' \<and>
   file_handler ''s1'' finished_state =
     (Response 200 (FileDownload ''temp/My_clip_s1.mp3'' (Some ''My_clip.mp3'')), finished_state) \<and>
   \<not> file_ready finished_state ''s2'' \<and>
   code (fst (file_handler ''s2'' finished_state)) = 404 \<and>
   snd (file_handler ''s2'' finished_state) = finished_state"
  using file_handler_serves_iff_ready [of "''s1''" finished_state]
        file_handler_serves_iff_ready [of "''s2''" finished_state]
  by (auto simp: file_ready_def finished_state_def completed_rec_def basic_rec_def empty_obj_def)

text \<open>
  C8. When the URL of the request body fails the URL validation, POST /api/info,
  POST /api/debug and POST /api/download each answer HTTP 400 with the body
  \<open>{error: 'Invalid YouTube URL'}\<close>; the download handler then returns no session id and
  leaves the state, so also the progress map, as it was.
\<close>

theorem invalid_url_rejected:
  "\<not> validateURL url \<Longrightarrow>
     info_handler validateURL url got = Response 400 (ErrorBody ''Invalid YouTube URL'') \<and>
     debug_handler validateURL url got = Response 400 (ErrorBody ''Invalid YouTube URL'') \<and>
     download_handler validateURL tempDir sessionId
         \<lparr>req_url = url, req_format = fmt, req_itag = itg\<rparr> env s
       = (Response 400 (ErrorBody ''Invalid YouTube URL''), s)"
  by (simp add: info_handler_def debug_handler_def download_handler_def)

theorem invalid_url_rejected_witness:
  "\<not> demo_validateURL (VString ''https://example.org/'') \<and>
   info_handler demo_validateURL (VString ''https://example.org/'') (Rejected ''unused'')
     = Response 400 (ErrorBody ''Invalid YouTube URL'') \<and>
   debug_handler demo_validateURL (VString ''https://example.org/'') (Rejected ''unused'')
     = Response 400 (ErrorBody ''Invalid YouTube URL'') \<and>
   download_handler demo_validateURL ''temp'' ''s2''
       \<lparr>req_url = VString ''https://example.org/'', req_format = VUndefined,
        req_itag = VString ''ffmpeg-best''\<rparr> demo_env finished_state
     = (Response 400 (ErrorBody ''Invalid YouTube URL''), finished_state)"
  using invalid_url_rejected [of demo_validateURL "VString ''https://example.org/''"
          "Rejected ''unused''" "''temp''" "''s2''" VUndefined "VString ''ffmpeg-best''"
          demo_env finished_state]
  by (simp add: demo_validateURL_def)

subsection \<open>The sort and the option lists\<close>

lemma set_insert_by: "set (insert_by cmp x ys) = insert x (set ys)"
  by (induction ys) auto

lemma length_insert_by: "length (insert_by cmp x ys) = Suc (length ys)"
  by (induction ys) auto

lemma set_js_sort: "set (js_sort cmp xs) = set xs"
  by (induction xs) (auto simp: js_sort_def set_insert_by)

lemma length_js_sort: "length (js_sort cmp xs) = length xs"
  by (induction xs) (auto simp: js_sort_def length_insert_by)

lemma sorted_insert_by:
  assumes tot: "\<And>x y. cmp x y \<le> 0 \<or> cmp y x \<le> 0"
    and trans: "\<And>x y z. cmp x y \<le> 0 \<Longrightarrow> cmp y z \<le> 0 \<Longrightarrow> cmp x z \<le> 0"
  shows "sorted_wrt (\<lambda>a b. cmp a b \<le> 0) ys \<Longrightarrow>
         sorted_wrt (\<lambda>a b. cmp a b \<le> 0) (insert_by cmp x ys)"
proof (induction ys)
  case Nil
  then show ?case by simp
next
  case (Cons y ys)
  show ?case
  proof (cases "cmp x y \<le> 0")
    case True
    with Cons.prems trans show ?thesis by auto
  next
    case False
    with tot have "cmp y x \<le> 0" by blast
    with False Cons show ?thesis by (auto simp: set_insert_by)
  qed
qed

lemma sorted_js_sort:
  assumes tot: "\<And>x y. cmp x y \<le> 0 \<or> cmp y x \<le> 0"
    and trans: "\<And>x y z. cmp x y \<le> 0 \<Longrightarrow> cmp y z \<le> 0 \<Longrightarrow> cmp x z \<le> 0"
  shows "sorted_wrt (\<lambda>a b. cmp a b \<le> 0) (js_sort cmp xs)"
proof (induction xs)
  case Nil
  show ?case by (simp add: js_sort_def)
next
  case (Cons x xs)
  have "js_sort cmp (x # xs) = insert_by cmp x (js_sort cmp xs)"
    by (simp add: js_sort_def)
  with Cons sorted_insert_by [OF tot trans] show ?case by simp
qed

lemma digits_val_acc:
  "foldl (\<lambda>acc c. 10 * acc + digit_val c) a ds = a * 10 ^ length ds + decimal ds"
  by (induction ds arbitrary: a) (simp_all add: digit_val_def algebra_simps)

lemma digits_val_decimal: "digits_val ds = decimal ds"
  by (simp add: digits_val_def digits_val_acc)

lemma is_digit_set: "is_digit c \<longleftrightarrow> c \<in> set ''0123456789''"
  by (simp add: is_digit_def)

lemma height_here_run:
  assumes "\<forall>c\<in>set acc. is_digit c"
  shows "height_here (acc @ s)
     = (let ds = acc @ takeWhile is_digit s
        in if ds \<noteq> [] \<and> take 1 (dropWhile is_digit s) = ''p'' then Some (decimal ds) else None)"
proof -
  have tw: "takeWhile (\<lambda>c. c \<in> set ''0123456789'') (acc @ s) = acc @ takeWhile is_digit s"
    using assms by (simp add: takeWhile_append2 is_digit_def [abs_def])
  have "drop (length (acc @ takeWhile is_digit s)) (acc @ s) = dropWhile is_digit s"
    by (simp add: dropWhile_eq_drop)
  with tw show ?thesis
    by (simp add: height_here_def Let_def)
qed

lemma match_digits_p_height:
  "\<forall>c\<in>set acc. is_digit c \<Longrightarrow>
     (case match_digits_p acc s of None \<Rightarrow> 0 | Some ds \<Rightarrow> decimal ds)
       = (if acc = [] then shown_height s
          else case height_here (acc @ s) of Some h \<Rightarrow> h | None \<Rightarrow> shown_height s)"
proof (induction s arbitrary: acc)
  case Nil
  then show ?case
    using height_here_run [of acc "[]"] by (simp add: Let_def)
next
  case (Cons c cs)
  show ?case
  proof (cases "is_digit c")
    case True
    with Cons.prems have d: "\<forall>c\<in>set (acc @ [c]). is_digit c" by simp
    have same: "height_here (acc @ c # cs) = None \<Longrightarrow> height_here (c # cs) = None"
      using height_here_run [OF Cons.prems, of "c # cs"] height_here_run [of "[]" "c # cs"] True
      by (simp add: Let_def split: if_splits)
    from Cons.IH [OF d] True show ?thesis
      by (auto simp: same split: option.splits)
  next
    case False
    have here: "height_here (c # cs) = None"
      using height_here_run [of "[]" "c # cs"] False by (simp add: Let_def)
    have accrun: "height_here (acc @ c # cs)
            = (if acc \<noteq> [] \<and> c = CHR ''p'' then Some (decimal acc) else None)"
      using height_here_run [OF Cons.prems, of "c # cs"] False by (simp add: Let_def)
    from Cons.IH [of "[]"] False show ?thesis
      by (simp add: here accrun)
  qed
qed

lemma option_height_shown: "option_height a = int (shown_height (o_quality a))"
  using match_digits_p_height [of "[]" "o_quality a"]
  by (simp add: option_height_def digits_val_decimal split: option.splits)

lemma takeWhile_digits_p:
  assumes "set ds \<subseteq> set ''0123456789''"
  shows "takeWhile (\<lambda>c. c \<in> set ''0123456789'') (ds @ CHR ''p'' # rest) = ds"
proof -
  have "takeWhile (\<lambda>c. c \<in> set ''0123456789'') (ds @ CHR ''p'' # rest)
          = ds @ takeWhile (\<lambda>c. c \<in> set ''0123456789'') (CHR ''p'' # rest)"
    by (rule takeWhile_append2) (use assms in blast)
  moreover have "takeWhile (\<lambda>c. c \<in> set ''0123456789'') (CHR ''p'' # rest) = []"
    by simp
  ultimately show ?thesis
    by (simp only: append_Nil2)
qed

lemma height_here_label:
  assumes "ds \<noteq> []" "set ds \<subseteq> set ''0123456789''"
  shows "height_here (ds @ CHR ''p'' # rest) = Some (decimal ds)"
  unfolding height_here_def takeWhile_digits_p [OF assms(2)] Let_def using assms(1) by simp

lemma shown_height_label:
  assumes "ds \<noteq> []" "set ds \<subseteq> set ''0123456789''"
  shows "shown_height (ds @ CHR ''p'' # rest) = decimal ds"
proof -
  obtain c cs where ds: "ds = c # cs"
    using assms(1) by (cases ds) auto
  have "shown_height ((c # cs) @ CHR ''p'' # rest)
          = (case height_here ((c # cs) @ CHR ''p'' # rest) of
               Some h \<Rightarrow> h
             | None \<Rightarrow> shown_height (cs @ CHR ''p'' # rest))"
    by (simp only: append_Cons shown_height.simps)
  then show ?thesis
    unfolding ds [symmetric] by (simp only: height_here_label [OF assms] option.case)
qed

lemma insert_by_insort_key:
  "(\<And>x y. cmp x y \<le> 0 \<longleftrightarrow> key x \<le> key y) \<Longrightarrow> insert_by cmp x ys = insort_key key x ys"
  by (induction ys) simp_all

lemma js_sort_sort_key:
  assumes "\<And>x y. cmp x y \<le> 0 \<longleftrightarrow> key x \<le> key y"
  shows "js_sort cmp xs = sort_key key xs"
  by (induction xs) (simp_all add: js_sort_def insert_by_insort_key [of cmp key, OF assms])

lemma option_cmp_rank: "option_cmp a b \<le> 0 \<longleftrightarrow> video_rank a \<le> video_rank b"
  by (auto simp: option_cmp_def video_rank_def Let_def option_height_shown)

lemma audio_cmp_rank: "audio_cmp a b \<le> 0 \<longleftrightarrow> audio_rank a \<le> audio_rank b"
  by (auto simp: audio_cmp_def audio_rank_def or_zero_def split: option.splits)

lemma option_cmp_le: "option_cmp a b \<le> 0 \<longleftrightarrow> video_before a b"
  by (auto simp: option_cmp_def video_before_def Let_def option_height_shown)

lemma audio_cmp_le: "audio_cmp a b \<le> 0 \<longleftrightarrow> audio_before a b"
  by (auto simp: audio_cmp_def audio_before_def or_zero_def split: option.splits)

lemma sorted_wrt_take: "sorted_wrt P xs \<Longrightarrow> sorted_wrt P (take n xs)"
  by (metis append_take_drop_id sorted_wrt_append)

lemma sorted_video_options_sorted: "sorted_wrt video_before (sorted_video_options fs)"
proof -
  have "sorted_wrt (\<lambda>a b. option_cmp a b \<le> 0)
          (js_sort option_cmp (combinedFormats fs @ videoOnlyFormats fs))"
    by (rule sorted_js_sort) (auto simp: option_cmp_le video_before_def)
  then show ?thesis
    by (simp add: sorted_video_options_def sorted_wrt_take option_cmp_le)
qed

lemma sorted_audio_options_sorted: "sorted_wrt audio_before (sorted_audio_options fs)"
proof -
  have "sorted_wrt (\<lambda>a b. audio_cmp a b \<le> 0)
          (js_sort audio_cmp (map audio_option_of (filter is_audio_only fs)))"
    by (rule sorted_js_sort) (auto simp: audio_cmp_le audio_before_def)
  then show ?thesis
    by (simp add: sorted_audio_options_def sorted_wrt_take audio_cmp_le)
qed

lemma set_sorted_video_options:
  "set (sorted_video_options fs) \<subseteq>
     combined_option ` {f \<in> set fs. is_combined f} \<union>
     video_only_option ` {f \<in> set fs. is_video_only f}"
proof -
  have "set (sorted_video_options fs)
          \<subseteq> set (js_sort option_cmp (combinedFormats fs @ videoOnlyFormats fs))"
    unfolding sorted_video_options_def by (rule set_take_subset)
  then show ?thesis
    by (auto simp: set_js_sort combinedFormats_def videoOnlyFormats_def)
qed

lemma set_sorted_audio_options:
  "set (sorted_audio_options fs) \<subseteq> audio_option_of ` {f \<in> set fs. is_audio_only f}"
proof -
  have "set (sorted_audio_options fs)
          \<subseteq> set (js_sort audio_cmp (map audio_option_of (filter is_audio_only fs)))"
    unfolding sorted_audio_options_def by (rule set_take_subset)
  then show ?thesis
    by (auto simp: set_js_sort)
qed

lemma length_sorted_video_options:
  "length (sorted_video_options fs)
     = min 15 (length (filter is_combined fs) + length (filter is_video_only fs))"
  by (simp add: sorted_video_options_def length_js_sort combinedFormats_def
        videoOnlyFormats_def min.commute)

lemma length_sorted_audio_options:
  "length (sorted_audio_options fs) = min 5 (length (filter is_audio_only fs))"
  by (simp add: sorted_audio_options_def length_js_sort min.commute)

lemma str_includes_iff: "str_includes s sub \<longleftrightarrow> (\<exists>pre post. s = pre @ sub @ post)"
proof (induction s)
  case Nil
  show ?case by auto
next
  case (Cons c cs)
  have "take (length sub) (c # cs) = sub \<longleftrightarrow> (\<exists>post. c # cs = sub @ post)"
    by (metis append_eq_conv_conj append_take_drop_id)
  moreover have "(\<exists>pre post. c # cs = pre @ sub @ post)
      \<longleftrightarrow> (\<exists>post. c # cs = sub @ post) \<or> (\<exists>pre post. cs = pre @ sub @ post)"
  proof
    assume "\<exists>pre post. c # cs = pre @ sub @ post"
    then obtain pre post where e: "c # cs = pre @ sub @ post" by blast
    show "(\<exists>post. c # cs = sub @ post) \<or> (\<exists>pre post. cs = pre @ sub @ post)"
    proof (cases pre)
      case Nil
      with e show ?thesis by auto
    next
      case (Cons p pre')
      with e have "cs = pre' @ sub @ post" by simp
      then show ?thesis by blast
    qed
  next
    assume "(\<exists>post. c # cs = sub @ post) \<or> (\<exists>pre post. cs = pre @ sub @ post)"
    then show "\<exists>pre post. c # cs = pre @ sub @ post"
    proof
      assume "\<exists>post. c # cs = sub @ post"
      then obtain post where "c # cs = [] @ sub @ post" by auto
      then show ?thesis by blast
    next
      assume "\<exists>pre post. cs = pre @ sub @ post"
      then obtain pre post where "c # cs = (c # pre) @ sub @ post" by auto
      then show ?thesis by blast
    qed
  qed
  ultimately show ?case using Cons.IH by simp
qed

lemmas demo_defs =
  demo_info_def fmt_1080_video_def fmt_360_combined_def fmt_128_audio_def fmt_360_video_def
  audio_fmt_def

lemma demo_video_options:
  "map o_itag (sorted_video_options (formats demo_info)) = [VNumber 137, VNumber 18, VNumber 134]"
  by (simp add: sorted_video_options_def js_sort_def combinedFormats_def videoOnlyFormats_def
        is_combined_def is_video_only_def demo_defs combined_option_def video_only_option_def
        option_cmp_def option_height_def label_or_quality_def is_digit_def digits_val_def
        digit_val_def)

lemma demo_audio_options:
  "map a_itag (sorted_audio_options (formats demo_info)) = [251, 140, 250, 249, 139]"
  by (simp add: sorted_audio_options_def js_sort_def is_audio_only_def demo_defs
        audio_option_of_def audio_cmp_def or_zero_def)

lemma is_combined_spelled:
  "is_combined = (\<lambda>f. hasVideo f \<and> hasAudio f \<and> container f = ''mp4'')"
  by (rule ext) (simp add: is_combined_def)

lemma is_audio_only_spelled: "is_audio_only = (\<lambda>f. hasAudio f \<and> \<not> hasVideo f)"
  by (rule ext) (simp add: is_audio_only_def)

lemma is_video_only_spelled:
  "is_video_only
     = (\<lambda>f. hasVideo f \<and> \<not> hasAudio f \<and> qualityLabel f \<noteq> None \<and> qualityLabel f \<noteq> Some [] \<and>
            (container f = ''mp4'' \<or>
             (\<exists>pre post. mimeType f = Some (pre @ ''video/mp4'' @ post))))"
proof (rule ext)
  fix f :: yt_format
  have m: "(case mimeType f of None \<Rightarrow> False | Some m \<Rightarrow> str_includes m ''video/mp4'')
             \<longleftrightarrow> (\<exists>pre post. mimeType f = Some (pre @ ''video/mp4'' @ post))"
    by (cases "mimeType f") (simp_all only: option.case str_includes_iff option.inject, simp_all)
  have l: "(case qualityLabel f of None \<Rightarrow> False | Some l \<Rightarrow> l \<noteq> [])
             \<longleftrightarrow> qualityLabel f \<noteq> None \<and> qualityLabel f \<noteq> Some []"
    by (cases "qualityLabel f") simp_all
  show "is_video_only f
     = (hasVideo f \<and> \<not> hasAudio f \<and> qualityLabel f \<noteq> None \<and> qualityLabel f \<noteq> Some [] \<and>
            (container f = ''mp4'' \<or>
             (\<exists>pre post. mimeType f = Some (pre @ ''video/mp4'' @ post))))"
    unfolding is_video_only_def m l by (simp only: conj_assoc)
qed

lemma sorted_video_options_sort_key:
  "sorted_video_options fs
     = take 15 (sort_key video_rank
         (map combined_option (filter is_combined fs) @
          map video_only_option (filter is_video_only fs)))"
  by (simp only: sorted_video_options_def combinedFormats_def videoOnlyFormats_def
        js_sort_sort_key [of option_cmp video_rank, OF option_cmp_rank])

lemma sorted_audio_options_sort_key:
  "sorted_audio_options fs
     = take 5 (sort_key audio_rank (map audio_option_of (filter is_audio_only fs)))"
  by (simp only: sorted_audio_options_def
        js_sort_sort_key [of audio_cmp audio_rank, OF audio_cmp_rank])

lemma option_fields:
  "o_itag (combined_option f) = VNumber (itag f)"
  "o_hasAudio (combined_option f) = Some True"
  "o_itag (video_only_option f) = VNumber (itag f)"
  "o_hasAudio (video_only_option f) = Some False"
  "a_itag (audio_option_of f) = itag f"
  "a_bitrate (audio_option_of f) = audioBitrate f"
  by (simp_all add: combined_option_def video_only_option_def audio_option_of_def)

lemma option_quality_label:
  assumes "qualityLabel f = Some (ds @ CHR ''p'' # rest)"
  shows "o_quality (combined_option f) = ds @ CHR ''p'' # (rest @ '' (combined)'')"
    and "o_quality (video_only_option f)
           = ds @ CHR ''p'' # (rest @ '' (video-only, will merge with audio)'')"
  using assms by (simp_all add: combined_option_def video_only_option_def label_or_quality_def)

lemma option_height_label:
  assumes "qualityLabel f = Some (ds @ CHR ''p'' # rest)" "ds \<noteq> []"
    "set ds \<subseteq> set ''0123456789''"
  shows "shown_height (o_quality (combined_option f)) = decimal ds"
    and "shown_height (o_quality (video_only_option f)) = decimal ds"
  by (simp_all only: option_quality_label [OF assms(1)] shown_height_label [OF assms(2,3)])

text \<open>
  C5. For a valid URL whose metadata the library delivers, POST /api/info answers with
  option lists computed from the decoded formats by filtering and sorting alone. Its
  \<open>videoFormats\<close> are the three fixed presets followed by the first 15 (or all, if fewer)
  of the options made from the combined formats (video and audio, container mp4) followed
  by those made from the video-only formats (video, no audio, a quality label, container
  mp4 or a mime type containing \<open>video/mp4\<close>), stably sorted by descending resolution
  height, an option with audio before one without at equal height. Its \<open>audioFormats\<close>
  are the first 5 (or all, if fewer) of the options made from the audio-only formats,
  stably sorted by descending audio bitrate (a missing bitrate counts as 0). An option
  carries the itag of its format, an audio option also its bitrate, and the height of an
  option is the number that the quality label of its format shows before \<open>p\<close>.
\<close>

theorem info_options_filtered_and_sorted:
  "validateURL url \<Longrightarrow>
     info_handler validateURL url (Resolved info) = Response 200 (InfoBody (info_success info)) \<and>
     videoFormats (info_success info)
       = [\<lparr>o_quality = ''Best Quality (FFmpeg merge)'', o_itag = VString ''ffmpeg-best'',
           o_fps = None, o_bitrate = None, o_mimeType = None, o_filesize = None,
           o_type = ''preset'', o_hasAudio = None\<rparr>,
          \<lparr>o_quality = ''Best Combined Format'', o_itag = VString ''highest-audio'',
           o_fps = None, o_bitrate = None, o_mimeType = None, o_filesize = None,
           o_type = ''preset'', o_hasAudio = None\<rparr>,
          \<lparr>o_quality = ''Medium Quality (FFmpeg merge)'', o_itag = VString ''ffmpeg-medium'',
           o_fps = None, o_bitrate = None, o_mimeType = None, o_filesize = None,
           o_type = ''preset'', o_hasAudio = None\<rparr>]
         @ take 15 (sort_key video_rank
             (map combined_option
                (filter (\<lambda>f. hasVideo f \<and> hasAudio f \<and> container f = ''mp4'') (formats info)) @
              map video_only_option
                (filter (\<lambda>f. hasVideo f \<and> \<not> hasAudio f \<and>
                            qualityLabel f \<noteq> None \<and> qualityLabel f \<noteq> Some [] \<and>
                            (container f = ''mp4'' \<or>
                             (\<exists>pre post. mimeType f = Some (pre @ ''video/mp4'' @ post))))
                   (formats info)))) \<and>
     audioFormats (info_success info)
       = take 5 (sort_key audio_rank
           (map audio_option_of (filter (\<lambda>f. hasAudio f \<and> \<not> hasVideo f) (formats info)))) \<and>
     (\<forall>f. o_itag (combined_option f) = VNumber (itag f) \<and>
          o_hasAudio (combined_option f) = Some True \<and>
          o_itag (video_only_option f) = VNumber (itag f) \<and>
          o_hasAudio (video_only_option f) = Some False \<and>
          a_itag (audio_option_of f) = itag f \<and>
          a_bitrate (audio_option_of f) = audioBitrate f) \<and>
     (\<forall>f ds rest.
        qualityLabel f = Some (ds @ CHR ''p'' # rest) \<and> ds \<noteq> [] \<and>
        set ds \<subseteq> set ''0123456789'' \<longrightarrow>
          shown_height (o_quality (combined_option f)) = decimal ds \<and>
          shown_height (o_quality (video_only_option f)) = decimal ds) \<and>
     videoFormats (info_success info) = presetFormats @ sorted_video_options (formats info) \<and>
     length presetFormats = 3 \<and>
     length (sorted_video_options (formats info))
       = min 15 (length (filter is_combined (formats info)) +
                 length (filter is_video_only (formats info))) \<and>
     set (sorted_video_options (formats info))
       \<subseteq> combined_option ` {f \<in> set (formats info). is_combined f} \<union>
         video_only_option ` {f \<in> set (formats info). is_video_only f} \<and>
     sorted_wrt video_before (sorted_video_options (formats info)) \<and>
     audioFormats (info_success info) = sorted_audio_options (formats info) \<and>
     length (sorted_audio_options (formats info))
       = min 5 (length (filter is_audio_only (formats info))) \<and>
     set (sorted_audio_options (formats info))
       \<subseteq> audio_option_of ` {f \<in> set (formats info). is_audio_only f} \<and>
     sorted_wrt audio_before (sorted_audio_options (formats info))"
proof -
  assume valid: "validateURL url"
  have resp: "info_handler validateURL url (Resolved info)
                = Response 200 (InfoBody (info_success info))"
    using valid by (simp add: info_handler_def)
  have vf: "videoFormats (info_success info) = presetFormats @ sorted_video_options (formats info)"
    and af: "audioFormats (info_success info) = sorted_audio_options (formats info)"
    by (simp_all add: info_success_def Let_def)
  have vf': "videoFormats (info_success info)
       = [\<lparr>o_quality = ''Best Quality (FFmpeg merge)'', o_itag = VString ''ffmpeg-best'',
           o_fps = None, o_bitrate = None, o_mimeType = None, o_filesize = None,
           o_type = ''preset'', o_hasAudio = None\<rparr>,
          \<lparr>o_quality = ''Best Combined Format'', o_itag = VString ''highest-audio'',
           o_fps = None, o_bitrate = None, o_mimeType = None, o_filesize = None,
           o_type = ''preset'', o_hasAudio = None\<rparr>,
          \<lparr>o_quality = ''Medium Quality (FFmpeg merge)'', o_itag = VString ''ffmpeg-medium'',
           o_fps = None, o_bitrate = None, o_mimeType = None, o_filesize = None,
           o_type = ''preset'', o_hasAudio = None\<rparr>]
         @ take 15 (sort_key video_rank
             (map combined_option
                (filter (\<lambda>f. hasVideo f \<and> hasAudio f \<and> container f = ''mp4'') (formats info)) @
              map video_only_option
                (filter (\<lambda>f. hasVideo f \<and> \<not> hasAudio f \<and>
                            qualityLabel f \<noteq> None \<and> qualityLabel f \<noteq> Some [] \<and>
                            (container f = ''mp4'' \<or>
                             (\<exists>pre post. mimeType f = Some (pre @ ''video/mp4'' @ post))))
                   (formats info))))"
    unfolding vf presetFormats_def sorted_video_options_sort_key
      is_combined_spelled is_video_only_spelled by (rule refl)
  have af': "audioFormats (info_success info)
       = take 5 (sort_key audio_rank
           (map audio_option_of (filter (\<lambda>f. hasAudio f \<and> \<not> hasVideo f) (formats info))))"
    unfolding af sorted_audio_options_sort_key is_audio_only_spelled by (rule refl)
  have fields: "\<forall>f. o_itag (combined_option f) = VNumber (itag f) \<and>
          o_hasAudio (combined_option f) = Some True \<and>
          o_itag (video_only_option f) = VNumber (itag f) \<and>
          o_hasAudio (video_only_option f) = Some False \<and>
          a_itag (audio_option_of f) = itag f \<and>
          a_bitrate (audio_option_of f) = audioBitrate f"
    by (simp only: option_fields simp_thms)
  have heights: "\<forall>f ds rest.
        qualityLabel f = Some (ds @ CHR ''p'' # rest) \<and> ds \<noteq> [] \<and>
        set ds \<subseteq> set ''0123456789'' \<longrightarrow>
          shown_height (o_quality (combined_option f)) = decimal ds \<and>
          shown_height (o_quality (video_only_option f)) = decimal ds"
    using option_height_label by blast
  have lp: "length presetFormats = 3"
    by (simp add: presetFormats_def)
  from resp vf' af' fields heights vf lp af
    length_sorted_video_options [of "formats info"] set_sorted_video_options [of "formats info"]
    sorted_video_options_sorted [of "formats info"]
    length_sorted_audio_options [of "formats info"] set_sorted_audio_options [of "formats info"]
    sorted_audio_options_sorted [of "formats info"]
  show ?thesis
    by (intro conjI) (assumption | rule refl)+
qed

theorem info_options_filtered_and_sorted_witness:
  "demo_validateURL (VString ''https://youtu.be/NY0u1DEKrug'') \<and>
   info_handler demo_validateURL (VString ''https://youtu.be/NY0u1DEKrug'') (Resolved demo_info)
     = Response 200 (InfoBody (info_success demo_info)) \<and>
   map itag (formats demo_info) = [134, 600, 139, 251, 249, 140, 250, 18, 137] \<and>
   map o_itag (videoFormats (info_success demo_info))
     = [VString ''ffmpeg-best'', VString ''highest-audio'', VString ''ffmpeg-medium'',
        VNumber 137, VNumber 18, VNumber 134] \<and>
   map a_itag (audioFormats (info_success demo_info)) = [251, 140, 250, 249, 139] \<and>
   map a_bitrate (audioFormats (info_success demo_info))
     = [Some 160, Some 128, Some 70, Some 50, Some 48] \<and>
   qualityLabel fmt_1080_video = Some (''1080'' @ CHR ''p'' # []) \<and>
   shown_height (o_quality (video_only_option fmt_1080_video)) = 1080"
proof -
  have valid: "demo_validateURL (VString ''https://youtu.be/NY0u1DEKrug'')"
    by (simp add: demo_validateURL_def)
  note inst = info_options_filtered_and_sorted [of demo_validateURL
          "VString ''https://youtu.be/NY0u1DEKrug''" demo_info, OF valid]
  from inst have resp: "info_handler demo_validateURL (VString ''https://youtu.be/NY0u1DEKrug'')
        (Resolved demo_info) = Response 200 (InfoBody (info_success demo_info))"
    by (rule conjunct1)
  note hts = inst [THEN conjunct2, THEN conjunct2, THEN conjunct2, THEN conjunct2, THEN conjunct1,
    rule_format, of fmt_1080_video "''1080''" "[]"]
  have lbl: "qualityLabel fmt_1080_video = Some (''1080'' @ CHR ''p'' # [])"
    by (simp add: fmt_1080_video_def)
  have "shown_height (o_quality (video_only_option fmt_1080_video)) = decimal ''1080''"
    using hts lbl by simp
  then have h: "shown_height (o_quality (video_only_option fmt_1080_video)) = 1080"
    by simp
  have its: "map itag (formats demo_info) = [134, 600, 139, 251, 249, 140, 250, 18, 137]"
    by (simp add: demo_defs)
  have brs: "map a_bitrate (sorted_audio_options (formats demo_info))
     = [Some 160, Some 128, Some 70, Some 50, Some 48]"
    by (simp add: sorted_audio_options_def js_sort_def is_audio_only_def demo_defs
        audio_option_of_def audio_cmp_def or_zero_def)
  from valid resp its h lbl brs demo_video_options demo_audio_options show ?thesis
    by (simp add: info_success_def Let_def presetFormats_def)
qed

subsection \<open>The records a session writes\<close>





















lemma replay_keeps: "m k \<noteq> None \<Longrightarrow> replay evs m k \<noteq> None"
proof (induction evs arbitrary: m)
  case Nil
  then show ?case by simp
next
  case (Cons e evs)
  then show ?case by (cases e) auto
qed







subsection \<open>Failures\<close>

lemma begun_append: "begun (a @ b) = begun a @ begun b"
  by (induction a rule: begun.induct) simp_all

lemma failures_append: "failures (a @ b) = failures a @ failures b"
  by (induction a rule: failures.induct) simp_all

lemma failures_mem: "(ph, msg) \<in> set (failures evs) \<longleftrightarrow> Failed ph msg \<in> set evs"
  by (induction evs rule: failures.induct) auto

lemma quiet_download_notes:
  "begun (download_notes sessionId what cs) = []" "failures (download_notes sessionId what cs) = []"
  by (induction cs) (auto simp: download_notes_def)

lemma quiet_stream_notes:
  "begun (map (stream_note sessionId cur st b) cs) = []"
  "failures (map (stream_note sessionId cur st b) cs) = []"
  by (induction cs) (auto simp: stream_note_def)

lemma quiet_ffmpeg_notes:
  "begun (ffmpeg_notes sessionId evs) = []" "failures (ffmpeg_notes sessionId evs) = []"
  by (induction evs) (auto simp: ffmpeg_notes_def)

lemma quiet_cleanup:
  "begun (cleanup_events F paths) = []" "failures (cleanup_events F paths) = []"
  by (induction paths arbitrary: F) auto

lemmas quiet = quiet_download_notes quiet_stream_notes quiet_ffmpeg_notes quiet_cleanup
  begun_append failures_append

lemma marks_audio_events:
  "begun (audio_events tempDir ttl sessionId itg run) = [DownloadAudio]"
  "failures (audio_events tempDir ttl sessionId itg run)
     = (case stream_result run of Resolved u \<Rightarrow> [] | Rejected msg \<Rightarrow> [(DownloadAudio, msg)])"
  by (simp_all add: audio_events_def quiet stream_close_def stream_result_def split: option.splits)

lemma marks_regular_events:
  "begun (regular_events tempDir ttl sessionId itg info run) = [DownloadRegularVideo]"
  "failures (regular_events tempDir ttl sessionId itg info run)
     = (case stream_result run of Resolved u \<Rightarrow> [] | Rejected msg \<Rightarrow> [(DownloadRegularVideo, msg)])"
  by (simp_all add: regular_events_def quiet stream_close_def stream_result_def split: option.splits)

lemma marks_video_stream_events:
  "begun (video_stream_events p info ub sessionId st cur run) = [DownloadVideoStream]"
  "failures (video_stream_events p info ub sessionId st cur run)
     = (case video_stream_result info ub run of
          Resolved u \<Rightarrow> [] | Rejected msg \<Rightarrow> [(DownloadVideoStream, msg)])"
  by (simp_all add: video_stream_events_def video_stream_result_def quiet stream_close_def
        stream_result_def split: option.splits)

lemma marks_audio_stream_events:
  "begun (audio_stream_events p sessionId st cur run) = [DownloadAudioStream]"
  "failures (audio_stream_events p sessionId st cur run)
     = (case stream_result run of Resolved u \<Rightarrow> [] | Rejected msg \<Rightarrow> [(DownloadAudioStream, msg)])"
  by (simp_all add: audio_stream_events_def quiet stream_close_def stream_result_def
        split: option.splits)

lemma marks_ffmpeg_events:
  "begun (ffmpeg_events p sessionId run) = [MergeWithFFmpeg]"
  "failures (ffmpeg_events p sessionId run)
     = (case ffmpeg_result run of Resolved u \<Rightarrow> [] | Rejected msg \<Rightarrow> [(MergeWithFFmpeg, msg)])"
  by (simp_all add: ffmpeg_events_def ffmpeg_result_def quiet split: merge_end.splits)

lemmas marks_pieces = marks_audio_events marks_regular_events marks_video_stream_events
  marks_audio_stream_events marks_ffmpeg_events

lemma marks_merge_try_events:
  "begun (merge_try_events v a out info ttl sessionId ub env)
     \<in> {[DownloadVideoStream], [DownloadVideoStream, DownloadAudioStream],
        [DownloadVideoStream, DownloadAudioStream, MergeWithFFmpeg]}"
  "failures (merge_try_events v a out info ttl sessionId ub env)
     = (case merge_try_result info ub env of
          Resolved u \<Rightarrow> []
        | Rejected msg \<Rightarrow> [(last (begun (merge_try_events v a out info ttl sessionId ub env)), msg)])"
  by (simp_all add: merge_try_events_def merge_try_result_def quiet marks_pieces
        split: outcome.splits)

lemma marks_merge_session_events:
  "begun (merge_session_events tempDir info ttl sessionId ub env F)
     \<in> {[DownloadVideoStream], [DownloadVideoStream, DownloadAudioStream],
        [DownloadVideoStream, DownloadAudioStream, MergeWithFFmpeg]}"
  "failures (merge_session_events tempDir info ttl sessionId ub env F)
     = (case merge_try_result info ub env of
          Resolved u \<Rightarrow> []
        | Rejected msg \<Rightarrow>
            [(last (begun (merge_session_events tempDir info ttl sessionId ub env F)), msg)])"
  using marks_merge_try_events [of _ _ _ info ttl sessionId ub env]
  by (simp_all add: merge_session_events_def Let_def quiet del: cleanup_events.simps
        split: outcome.splits)

lemma begun_pipeline_events:
  "begun (pipeline_events tempDir sessionId req env F)
     \<in> {[GetInfo], [GetInfo, DownloadAudio], [GetInfo, DownloadRegularVideo],
        [GetInfo, DownloadVideoStream], [GetInfo, DownloadVideoStream, DownloadAudioStream],
        [GetInfo, DownloadVideoStream, DownloadAudioStream, MergeWithFFmpeg]}"
  using marks_merge_session_events(1) [of tempDir _ _ sessionId _ env F]
  by (auto simp: pipeline_events_def Let_def quiet marks_pieces split: outcome.splits)

lemma begun_merge_session_nonempty:
  "begun (merge_session_events tempDir info ttl sessionId ub env F) \<noteq> []"
  using marks_merge_session_events(1) [of tempDir info ttl sessionId ub env F] by auto

lemma last_begun_Cons:
  "xs \<noteq> [] \<Longrightarrow> last (a # b # xs) = last xs"
  by simp

lemma failures_pipeline_events:
  "failures (pipeline_events tempDir sessionId req env F)
     = (case pipeline_result req env of
          Resolved u \<Rightarrow> []
        | Rejected msg \<Rightarrow> [(last (begun (pipeline_events tempDir sessionId req env F)), msg)])"
proof (cases "got_info env")
  case (Rejected msg)
  then show ?thesis by (simp add: pipeline_events_def pipeline_result_def)
next
  case (Resolved info)
  show ?thesis
    by (simp add: pipeline_events_def pipeline_result_def Resolved Let_def quiet marks_pieces
          marks_merge_session_events(2) begun_merge_session_nonempty
          split: outcome.splits)
qed

lemma cleanup_only_unlinks: "set (cleanup_events F paths) \<subseteq> range Unlinked"
  by (induction paths arbitrary: F) auto

lemma stream_close_rejected:
  "stream_result run = Rejected msg \<Longrightarrow> stream_close ph fin run = [Failed ph msg]"
  by (simp add: stream_result_def stream_close_def split: option.splits)

lemma audio_events_rejected:
  "stream_result run = Rejected msg \<Longrightarrow>
     last (audio_events tempDir ttl sessionId itg run) = Failed DownloadAudio msg"
  by (simp add: audio_events_def stream_close_rejected)

lemma regular_events_rejected:
  "stream_result run = Rejected msg \<Longrightarrow>
     last (regular_events tempDir ttl sessionId itg info run) = Failed DownloadRegularVideo msg"
  by (simp add: regular_events_def stream_close_rejected)

lemma video_stream_events_rejected:
  "video_stream_result info ub run = Rejected msg \<Longrightarrow>
     last (video_stream_events p info ub sessionId st cur run) = Failed DownloadVideoStream msg"
  by (auto simp: video_stream_events_def video_stream_result_def stream_close_rejected
        split: option.splits)

lemma audio_stream_events_rejected:
  "stream_result run = Rejected msg \<Longrightarrow>
     last (audio_stream_events p sessionId st cur run) = Failed DownloadAudioStream msg"
  by (simp add: audio_stream_events_def stream_close_rejected)

lemma ffmpeg_events_rejected:
  "ffmpeg_result run = Rejected msg \<Longrightarrow>
     last (ffmpeg_events p sessionId run) = Failed MergeWithFFmpeg msg"
  by (auto simp: ffmpeg_events_def ffmpeg_result_def split: merge_end.splits)

lemma nonempty_pieces:
  "video_stream_events p info ub sessionId st cur run \<noteq> []"
  "audio_stream_events p sessionId st cur run \<noteq> []"
  "ffmpeg_events p sessionId mrun \<noteq> []"
  by (simp_all add: video_stream_events_def audio_stream_events_def ffmpeg_events_def)

lemma merge_try_events_rejected:
  assumes "merge_try_result info ub env = Rejected msg"
  shows "\<exists>ph. last (merge_try_events v a out info ttl sessionId ub env) = Failed ph msg"
proof (cases "video_stream_result info ub (first_stream env)")
  case (Rejected e)
  with assms have "e = msg" by (simp add: merge_try_result_def)
  with Rejected show ?thesis
    by (simp add: merge_try_events_def nonempty_pieces video_stream_events_rejected)
next
  case vr: (Resolved u)
  show ?thesis
  proof (cases "stream_result (second_stream env)")
    case (Rejected e)
    with assms vr have "e = msg" by (simp add: merge_try_result_def)
    with Rejected vr show ?thesis
      by (simp add: merge_try_events_def nonempty_pieces audio_stream_events_rejected)
  next
    case ar: (Resolved u')
    with assms vr have "ffmpeg_result (merging env) = Rejected msg"
      by (simp add: merge_try_result_def)
    with vr ar show ?thesis
      by (simp add: merge_try_events_def nonempty_pieces ffmpeg_events_rejected)
  qed
qed

lemma split_at_last: "evs \<noteq> [] \<Longrightarrow> last evs = e \<Longrightarrow> \<exists>pre. evs = pre @ [e]"
  using append_butlast_last_id [of evs] by (intro exI [of _ "butlast evs"]) simp

lemma failure_tail_intro:
  "evs = pre @ Failed ph msg # post \<Longrightarrow> set post \<subseteq> range Unlinked \<Longrightarrow>
     \<exists>pre ph post. evs = pre @ Failed ph msg # post \<and> set post \<subseteq> range Unlinked"
  by blast

lemma pipeline_events_rejected:
  assumes "pipeline_result req env = Rejected msg"
  shows "\<exists>pre ph post. pipeline_events tempDir sessionId req env F = pre @ Failed ph msg # post \<and>
           set post \<subseteq> range Unlinked"
proof (cases "got_info env")
  case (Rejected e)
  with assms have "pipeline_events tempDir sessionId req env F = [Begin GetInfo] @ Failed GetInfo msg # []"
    by (simp add: pipeline_events_def pipeline_result_def)
  then show ?thesis by (rule failure_tail_intro) simp
next
  case (Resolved info)
  let ?ttl = "sanitize_title (title (videoDetails info))"
  let ?ub = "req_itag req = VString ''ffmpeg-best''"
  consider (mp3) "req_format req = VString ''mp3''"
    | (merge) "req_format req \<noteq> VString ''mp3''"
        "req_itag req = VString ''ffmpeg-best'' \<or> req_itag req = VString ''ffmpeg-medium''"
    | (regular) "req_format req \<noteq> VString ''mp3''"
        "\<not> (req_itag req = VString ''ffmpeg-best'' \<or> req_itag req = VString ''ffmpeg-medium'')"
    by blast
  then show ?thesis
  proof cases
    case mp3
    let ?X = "audio_events tempDir ?ttl sessionId (req_itag req) (first_stream env)"
    from assms Resolved mp3 have "stream_result (first_stream env) = Rejected msg"
      by (simp add: pipeline_result_def)
    then have lst: "last ?X = Failed DownloadAudio msg" by (rule audio_events_rejected)
    have ne: "?X \<noteq> []" by (simp add: audio_events_def)
    from split_at_last [OF ne lst] obtain pre where X: "?X = pre @ [Failed DownloadAudio msg]" ..
    have "pipeline_events tempDir sessionId req env F
            = (Begin GetInfo # End GetInfo # pre) @ Failed DownloadAudio msg # []"
      by (simp add: pipeline_events_def Resolved mp3 X)
    then show ?thesis by (rule failure_tail_intro) simp
  next
    case regular
    let ?X = "regular_events tempDir ?ttl sessionId (req_itag req) info (first_stream env)"
    from assms Resolved regular have "stream_result (first_stream env) = Rejected msg"
      by (simp add: pipeline_result_def)
    then have lst: "last ?X = Failed DownloadRegularVideo msg" by (rule regular_events_rejected)
    have ne: "?X \<noteq> []" by (simp add: regular_events_def)
    from split_at_last [OF ne lst] obtain pre where X: "?X = pre @ [Failed DownloadRegularVideo msg]" ..
    have "pipeline_events tempDir sessionId req env F
            = (Begin GetInfo # End GetInfo # pre) @ Failed DownloadRegularVideo msg # []"
      by (simp add: pipeline_events_def Resolved regular X)
    then show ?thesis by (rule failure_tail_intro) simp
  next
    case merge
    define v where "v = path_join tempDir (?ttl @ ''_video_'' @ sessionId @ ''.mp4'')"
    define a where "a = path_join tempDir (?ttl @ ''_audio_'' @ sessionId @ ''.m4a'')"
    define out where "out = path_join tempDir (?ttl @ ''_merged_'' @ sessionId @ ''.mp4'')"
    let ?X = "merge_try_events v a out info ?ttl sessionId ?ub env"
    from assms Resolved merge have rej: "merge_try_result info ?ub env = Rejected msg"
      by (simp add: pipeline_result_def)
    from merge_try_events_rejected [OF rej, of v a out ?ttl sessionId]
    obtain ph where lst: "last ?X = Failed ph msg" ..
    have ne: "?X \<noteq> []" by (simp add: merge_try_events_def)
    from split_at_last [OF ne lst] obtain pre where X: "?X = pre @ [Failed ph msg]" ..
    have ms: "merge_session_events tempDir info ?ttl sessionId ?ub env F
            = ?X @ cleanup_events (disk_after ?X F) [v, a, out]"
      unfolding merge_session_events_def Let_def v_def [symmetric] a_def [symmetric]
        out_def [symmetric]
      by (simp add: rej del: cleanup_events.simps)
    have "pipeline_events tempDir sessionId req env F
            = (Begin GetInfo # End GetInfo # pre) @ Failed ph msg
                # cleanup_events (disk_after ?X F) [v, a, out]"
      by (simp add: pipeline_events_def Resolved merge ms X del: cleanup_events.simps)
    then show ?thesis by (rule failure_tail_intro) (rule cleanup_only_unlinks)
  qed
qed

lemma replay_last_write: "replay (evs @ [Wrote k r]) m k = Some r"
  by (simp add: replay_append)

lemma session_events_rejected:
  "pipeline_result req env = Rejected msg \<Longrightarrow>
     session_events tempDir sessionId req env F
       = (Wrote sessionId (basic_rec ''initializing'' (JNum 0) ''Getting video information...'') #
          Responded (started_response sessionId) #
          pipeline_events tempDir sessionId req env F) @ [Wrote sessionId (error_rec msg)]"
  by (simp add: session_events_def work_events_def)

lemma marks_session_events:
  "begun (session_events tempDir sessionId req env F) = begun (pipeline_events tempDir sessionId req env F)"
  "failures (session_events tempDir sessionId req env F)
     = failures (pipeline_events tempDir sessionId req env F)"
  by (simp_all add: session_events_def work_events_def begun_append failures_append
        split: outcome.splits)

lemma error_rec_literal:
  "error_rec msg
     = \<lparr>status = Some ''error'', progress = Some (JNum 0), stage = Some ''Error occurred'',
        downloadedBytes = None, totalBytes = None, error = Some msg, filePath = None,
        filename = None, ffmpegProgress = None, timestamp = None\<rparr>"
  by (simp add: error_rec_def basic_rec_def empty_obj_def)

lemma pipeline_rejected_origin:
  "pipeline_result req env = Rejected msg \<Longrightarrow>
     got_info env = Rejected msg \<or>
     stream_error (first_stream env) = Some msg \<or>
     stream_error (second_stream env) = Some msg \<or>
     (\<exists>left. merge_ending (merging env) = MergeError msg left) \<or>
     msg = ''No video-only formats found''"
  by (auto simp: pipeline_result_def merge_try_result_def video_stream_result_def
        stream_result_def ffmpeg_result_def
        split: outcome.splits option.splits if_splits merge_end.splits)

text \<open>
  C2. In an accepted download session, when a stage (the info fetch, a stream download or the
  merge) fails with a message, the session's entry in the progress map ends as the record
  \<open>{status: 'error', progress: 0, stage: 'Error occurred', error: message}\<close> with no
  other property, and this record is the last thing the session writes. The message is the
  one the failing stage was rejected with: the rejection of the info fetch, the error of
  a stream, the error of the multiplexer, or \<open>No video-only formats found\<close>. The session
  has exactly this one failure; every phase was begun at most once (nothing is retried) and
  the failing phase is the last one begun; after the failure nothing happens but the
  deletion of files and the write of the error record.
\<close>

theorem stage_failure_is_reported:
  assumes valid: "validateURL (req_url req)"
    and failed: "Failed ph msg \<in> set (new_events s
                   (snd (download_handler validateURL tempDir sessionId req env s)))"
  shows "downloadProgress (snd (download_handler validateURL tempDir sessionId req env s)) sessionId
           = Some \<lparr>status = Some ''error'', progress = Some (JNum 0),
                    stage = Some ''Error occurred'', downloadedBytes = None, totalBytes = None,
                    error = Some msg, filePath = None, filename = None,
                    ffmpegProgress = None, timestamp = None\<rparr> \<and>
         (got_info env = Rejected msg \<or>
          stream_error (first_stream env) = Some msg \<or>
          stream_error (second_stream env) = Some msg \<or>
          (\<exists>left. merge_ending (merging env) = MergeError msg left) \<or>
          msg = ''No video-only formats found'') \<and>
         failures (new_events s (snd (download_handler validateURL tempDir sessionId req env s)))
           = [(ph, msg)] \<and>
         distinct (begun (new_events s (snd (download_handler validateURL tempDir sessionId req env s)))) \<and>
         last (begun (new_events s (snd (download_handler validateURL tempDir sessionId req env s)))) = ph \<and>
         (\<exists>pre post.
            new_events s (snd (download_handler validateURL tempDir sessionId req env s))
              = pre @ Failed ph msg # post @
                [Wrote sessionId
                   \<lparr>status = Some ''error'', progress = Some (JNum 0),
                    stage = Some ''Error occurred'', downloadedBytes = None, totalBytes = None,
                    error = Some msg, filePath = None, filename = None,
                    ffmpegProgress = None, timestamp = None\<rparr>] \<and>
            set post \<subseteq> range Unlinked)"
proof -
  let ?E = "session_events tempDir sessionId req env (files s)"
  let ?P = "pipeline_events tempDir sessionId req env (files s)"
  let ?s' = "snd (download_handler validateURL tempDir sessionId req env s)"
  have s': "?s' = run_events ?E s"
    using valid by (simp add: download_handler_run)
  have new: "new_events s ?s' = ?E"
    by (simp add: s' new_events_run_events)
  from failed have "(ph, msg) \<in> set (failures ?E)"
    by (simp add: new failures_mem)
  then have inP: "(ph, msg) \<in> set (failures ?P)"
    by (simp add: marks_session_events)
  then obtain m where rej: "pipeline_result req env = Rejected m"
    using failures_pipeline_events [of tempDir sessionId req env "files s"]
    by (cases "pipeline_result req env") auto
  with inP have m: "m = msg" and ph: "ph = last (begun ?P)"
    using failures_pipeline_events [of tempDir sessionId req env "files s"] by auto
  have fl: "failures ?E = [(ph, msg)]"
    using failures_pipeline_events [of tempDir sessionId req env "files s"] rej m ph
    by (simp add: marks_session_events)
  have dist: "distinct (begun ?E)"
    using begun_pipeline_events [of tempDir sessionId req env "files s"]
    by (auto simp: marks_session_events)
  have E: "?E = (Wrote sessionId (basic_rec ''initializing'' (JNum 0) ''Getting video information...'') #
            Responded (started_response sessionId) # ?P) @ [Wrote sessionId (error_rec msg)]"
    using session_events_rejected [OF rej] m by simp
  have rec: "downloadProgress ?s' sessionId = Some (error_rec msg)"
    unfolding s' progress_run_events by (subst E) (rule replay_last_write)
  from pipeline_events_rejected [OF rej, of tempDir sessionId "files s"] m
  obtain pre ph' post where P: "?P = pre @ Failed ph' msg # post" and post: "set post \<subseteq> range Unlinked"
    by blast
  have "(ph', msg) \<in> set (failures ?P)"
    by (subst P) (simp add: failures_append)
  with fl have "ph' = ph" by (simp add: marks_session_events)
  with P E have "?E = (Wrote sessionId (basic_rec ''initializing'' (JNum 0) ''Getting video information...'') #
            Responded (started_response sessionId) # pre) @ Failed ph msg # post @ [Wrote sessionId (error_rec msg)]"
    by simp
  with post have "\<exists>pre post. ?E = pre @ Failed ph msg # post @ [Wrote sessionId (error_rec msg)] \<and>
            set post \<subseteq> range Unlinked"
    by blast
  then have tail: "\<exists>pre post. ?E = pre @ Failed ph msg # post @
                [Wrote sessionId
                   \<lparr>status = Some ''error'', progress = Some (JNum 0),
                    stage = Some ''Error occurred'', downloadedBytes = None, totalBytes = None,
                    error = Some msg, filePath = None, filename = None,
                    ffmpegProgress = None, timestamp = None\<rparr>] \<and>
            set post \<subseteq> range Unlinked"
    by (simp only: error_rec_literal)
  have origin: "got_info env = Rejected msg \<or>
          stream_error (first_stream env) = Some msg \<or>
          stream_error (second_stream env) = Some msg \<or>
          (\<exists>left. merge_ending (merging env) = MergeError msg left) \<or>
          msg = ''No video-only formats found''"
    using pipeline_rejected_origin [OF rej] m by simp
  from rec have rec': "downloadProgress ?s' sessionId
           = Some \<lparr>status = Some ''error'', progress = Some (JNum 0),
                    stage = Some ''Error occurred'', downloadedBytes = None, totalBytes = None,
                    error = Some msg, filePath = None, filename = None,
                    ffmpegProgress = None, timestamp = None\<rparr>"
    by (simp only: error_rec_literal)
  from rec' origin fl dist ph tail show ?thesis
    by (simp only: new marks_session_events)
qed

subsection \<open>The stages of a session\<close>

lemma stages_append: "stages (a @ b) = stages a @ stages b"
  by (simp add: stages_def)

lemma stages_Cons: "stages (e # evs) = (if is_note e then stages evs else e # stages evs)"
  by (simp add: stages_def)

lemma stages_Nil: "stages [] = []"
  by (simp add: stages_def)

lemma note_basic: "Some st \<in> note_statuses \<Longrightarrow> is_note (Wrote k (basic_rec st p sg))"
  by (simp add: basic_rec_def empty_obj_def)

lemma stages_stream_notes:
  "status r \<in> note_statuses \<Longrightarrow> stages (map (stream_note sessionId (Some r) st b) cs) = []"
  by (induction cs) (auto simp: stages_def stream_note_def spread_progress_def)

lemma stages_ffmpeg_notes: "stages (ffmpeg_notes sessionId evs) = []"
  by (induction evs)
     (auto simp: stages_def ffmpeg_notes_def ffmpeg_rec_def basic_rec_def empty_obj_def Let_def
        note_statuses_def)

lemma stages_download_notes: "stages (download_notes sessionId what cs) = []"
  by (induction cs)
     (auto simp: stages_def download_notes_def download_progress_rec_def basic_rec_def
        empty_obj_def Let_def note_statuses_def)

lemma note_simps [simp]:
  "is_note (Wrote k (basic_rec ''initializing'' p sg))"
  "is_note (Wrote k (basic_rec ''downloading'' p sg))"
  "is_note (Wrote k (basic_rec ''merging'' p sg))"
  "\<not> is_note (Wrote k (completed_rec sg fp fn))"
  "\<not> is_note (Wrote k (error_rec msg))"
  "status (basic_rec st p sg) = Some st"
  "status (completed_rec sg fp fn) = Some ''completed''"
  "status (error_rec msg) = Some ''error''"
  by (simp_all add: basic_rec_def empty_obj_def note_statuses_def completed_rec_def error_rec_def)

lemma stages_merge_session:
  assumes "req_format req \<noteq> VString ''mp3''"
    and "req_itag req = VString ''ffmpeg-best'' \<or> req_itag req = VString ''ffmpeg-medium''"
    and "got_info env = Resolved info"
    and "select_video_format info (req_itag req = VString ''ffmpeg-best'') = Some f"
    and "stream_error (first_stream env) = None"
    and "stream_error (second_stream env) = None"
    and "merge_ending (merging env) = MergeEnd"
  shows "stages (session_events tempDir sessionId req env F)
           = merge_stages tempDir sessionId (sanitize_title (title (videoDetails info))) (itag f)"
    and "pipeline_result req env = Resolved ()"
proof -
  let ?ub = "req_itag req = VString ''ffmpeg-best''"
  have vr: "video_stream_result info ?ub (first_stream env) = Resolved ()"
    using assms by (simp add: video_stream_result_def stream_result_def)
  have ar: "stream_result (second_stream env) = Resolved ()"
    using assms by (simp add: stream_result_def)
  have mr: "ffmpeg_result (merging env) = Resolved ()"
    using assms by (simp add: ffmpeg_result_def)
  have tr: "merge_try_result info ?ub env = Resolved ()"
    by (simp add: merge_try_result_def vr ar mr)
  show res: "pipeline_result req env = Resolved ()"
    using assms(1-3) by (simp add: pipeline_result_def tr)
  have "stages (merge_try_events v a out info ttl sessionId ?ub env)
          = [Begin DownloadVideoStream, Selected (itag f),
             Ytdl \<lparr>filter_opt = None, quality_opt = VNumber (itag f)\<rparr>, Created v,
             End DownloadVideoStream,
             Begin DownloadAudioStream,
             Ytdl \<lparr>filter_opt = Some ''audioonly'', quality_opt = VString ''highestaudio''\<rparr>,
             Created a, End DownloadAudioStream,
             Begin MergeWithFFmpeg, Created out, End MergeWithFFmpeg,
             Unlinked v, Unlinked a,
             Wrote sessionId (completed_rec ''Download and merge completed!'' out (ttl @ ''_merged.mp4''))]"
    for v a out ttl
    using assms(4-7)
    by (simp add: merge_try_events_def vr ar mr video_stream_events_def audio_stream_events_def
          ffmpeg_events_def stream_close_def stages_append stages_Cons stages_Nil
          stages_stream_notes stages_ffmpeg_notes note_statuses_def)
  then show "stages (session_events tempDir sessionId req env F)
           = merge_stages tempDir sessionId (sanitize_title (title (videoDetails info))) (itag f)"
    using assms(1-3)
    by (simp add: session_events_def work_events_def res pipeline_events_def
          merge_session_events_def tr Let_def stages_append stages_Cons stages_Nil
          merge_stages_def note_statuses_def)
qed

lemma disk_after_stages: "disk_after (stages evs) F = disk_after evs F"
proof (induction evs arbitrary: F)
  case Nil
  show ?case by (simp add: stages_Nil)
next
  case (Cons e evs)
  then show ?case by (cases e) (simp_all add: stages_Cons)
qed

lemma merge_stages_disk:
  "disk_after (merge_stages tempDir sessionId ttl i) F
     = insert (path_join tempDir (ttl @ ''_merged_'' @ sessionId @ ''.mp4''))
         (F - {path_join tempDir (ttl @ ''_video_'' @ sessionId @ ''.mp4''),
               path_join tempDir (ttl @ ''_audio_'' @ sessionId @ ''.m4a'')})"
  by (auto simp: merge_stages_def Let_def path_join_def)

lemma selected_video_only:
  assumes "select_video_format info ub = Some f"
  shows "hasVideo f \<and> \<not> hasAudio f \<and> f \<in> set (formats info)"
proof -
  let ?vs = "js_sort video_stream_cmp (filter (\<lambda>f. hasVideo f \<and> \<not> hasAudio f) (formats info))"
  have "f \<in> set ?vs"
  proof (cases ?vs)
    case Nil
    with assms show ?thesis by (simp add: select_video_format_def)
  next
    case (Cons first rest)
    have "first \<in> set ?vs" by (simp add: Cons)
    moreover have "length ?vs div 2 < length ?vs \<Longrightarrow> ?vs ! (length ?vs div 2) \<in> set ?vs"
      by (rule nth_mem)
    ultimately show ?thesis
      using assms Cons by (auto simp: select_video_format_def Let_def split: if_splits)
  qed
  then show ?thesis by (simp add: set_js_sort)
qed

lemma session_events_completed:
  assumes "req_format req \<noteq> VString ''mp3''"
    and "req_itag req = VString ''ffmpeg-best'' \<or> req_itag req = VString ''ffmpeg-medium''"
    and "got_info env = Resolved info"
    and "select_video_format info (req_itag req = VString ''ffmpeg-best'') = Some f"
    and "stream_error (first_stream env) = None"
    and "stream_error (second_stream env) = None"
    and "merge_ending (merging env) = MergeEnd"
  shows "last (session_events tempDir sessionId req env F)
           = Wrote sessionId
               (completed_rec ''Download and merge completed!''
                  (path_join tempDir (sanitize_title (title (videoDetails info)) @ ''_merged_'' @ sessionId @ ''.mp4''))
                  (sanitize_title (title (videoDetails info)) @ ''_merged.mp4''))"
proof -
  let ?ub = "req_itag req = VString ''ffmpeg-best''"
  have vr: "video_stream_result info ?ub (first_stream env) = Resolved ()"
    using assms by (simp add: video_stream_result_def stream_result_def)
  have ar: "stream_result (second_stream env) = Resolved ()"
    using assms by (simp add: stream_result_def)
  have mr: "ffmpeg_result (merging env) = Resolved ()"
    using assms by (simp add: ffmpeg_result_def)
  have tr: "merge_try_result info ?ub env = Resolved ()"
    by (simp add: merge_try_result_def vr ar mr)
  have res: "pipeline_result req env = Resolved ()"
    using assms(1-3) by (simp add: pipeline_result_def tr)
  show ?thesis
    using assms(1-3)
    by (simp add: session_events_def work_events_def res pipeline_events_def
          merge_session_events_def tr Let_def merge_try_events_def vr ar mr)
qed

subsection \<open>The concrete sessions\<close>

lemma demo_title: "sanitize_title (title (videoDetails demo_info)) = ''My_clip''"
  by (simp add: demo_info_def sanitize_title_def is_word_char_def is_space_def)

lemma demo_heights:
  "label_height fmt_1080_video = Some 1080" "label_height fmt_360_video = Some 360"
  by (simp_all add: label_height_def fmt_1080_video_def fmt_360_video_def parseInt_def
        is_space_def is_digit_def digits_val_def digit_val_def Let_def)

lemma demo_selected: "select_video_format demo_info True = Some fmt_1080_video"
proof -
  have "filter (\<lambda>f. hasVideo f \<and> \<not> hasAudio f) (formats demo_info) = [fmt_360_video, fmt_1080_video]"
    by (simp add: demo_defs)
  then show ?thesis
    by (simp add: select_video_format_def js_sort_def video_stream_cmp_def demo_heights
          diff_or_zero_def)
qed

lemma demo_valid: "demo_validateURL demo_url"
  by (simp add: demo_validateURL_def demo_url_def)

lemma demo_env_simps:
  "got_info demo_env = Resolved demo_info"
  "stream_error (first_stream demo_env) = None"
  "stream_error (second_stream demo_env) = None"
  "merge_ending (merging demo_env) = MergeEnd"
  "got_info failing_env = Resolved demo_info"
  "stream_error (first_stream failing_env) = Some ''socket hang up''"
  "chunks (first_stream failing_env) = [(1, 3)]"
  by (simp_all add: demo_env_def failing_env_def)

lemma demo_request_simps:
  "req_url merge_request = demo_url" "req_format merge_request \<noteq> VString ''mp3''"
  "req_itag merge_request = VString ''ffmpeg-best''"
  "req_url mp3_request = demo_url" "req_format mp3_request = VString ''mp3''"
  "req_itag mp3_request = VUndefined"
  "req_url mp3_merge_request = demo_url" "req_format mp3_merge_request = VString ''mp3''"
  "req_itag mp3_merge_request = VString ''ffmpeg-best''"
  by (simp_all add: merge_request_def mp3_request_def mp3_merge_request_def)

lemma demo_itag: "itag fmt_1080_video = 137"
  by (simp add: fmt_1080_video_def)

lemma demo_merge_new_events:
  "new_events s (snd (download_handler demo_validateURL tempDir sessionId req env s))
     = (if demo_validateURL (req_url req) then session_events tempDir sessionId req env (files s) else [])"
  using new_events_run_events [of s "[]"]
  by (simp add: download_handler_run new_events_run_events)

lemma demo_merge_stages:
  "stages (new_events initial_state
     (snd (download_handler demo_validateURL ''temp'' ''s1'' merge_request demo_env initial_state)))
     = merge_stages ''temp'' ''s1'' ''My_clip'' 137"
proof -
  have sel: "select_video_format demo_info (req_itag merge_request = VString ''ffmpeg-best'')
               = Some fmt_1080_video"
    by (simp add: demo_request_simps demo_selected)
  have "stages (session_events ''temp'' ''s1'' merge_request demo_env F)
          = merge_stages ''temp'' ''s1'' (sanitize_title (title (videoDetails demo_info)))
              (itag fmt_1080_video)" for F
    by (rule stages_merge_session(1) [OF demo_request_simps(2) _ demo_env_simps(1) sel
          demo_env_simps(2) demo_env_simps(3) demo_env_simps(4)])
       (simp add: demo_request_simps)
  then show ?thesis
    by (simp add: demo_merge_new_events demo_request_simps demo_valid demo_title demo_itag)
qed

lemma failing_merge_events:
  "session_events ''temp'' ''s1'' merge_request failing_env {}
     = [Wrote ''s1'' (basic_rec ''initializing'' (JNum 0) ''Getting video information...''),
        Responded (started_response ''s1''),
        Begin GetInfo, End GetInfo,
        Wrote ''s1'' (basic_rec ''downloading'' (JNum 0) ''Downloading video stream...''),
        Begin DownloadVideoStream, Selected 137,
        Ytdl \<lparr>filter_opt = None, quality_opt = VNumber 137\<rparr>,
        Created ''temp/My_clip_video_s1.mp4'',
        stream_note ''s1'' (Some (basic_rec ''downloading'' (JNum 0) ''Downloading video stream...''))
          ''video'' 0 (1, 3),
        Failed DownloadVideoStream ''socket hang up'',
        Unlinked ''temp/My_clip_video_s1.mp4'',
        Wrote ''s1'' (error_rec ''socket hang up'')]"
proof -
  have vr: "video_stream_result demo_info True (first_stream failing_env) = Rejected ''socket hang up''"
    by (simp add: video_stream_result_def demo_selected stream_result_def demo_env_simps)
  have tr: "merge_try_result demo_info True failing_env = Rejected ''socket hang up''"
    by (simp add: merge_try_result_def vr)
  have res: "pipeline_result merge_request failing_env = Rejected ''socket hang up''"
    by (simp add: pipeline_result_def demo_env_simps demo_request_simps tr)
  show ?thesis
    by (simp add: session_events_def work_events_def res pipeline_events_def demo_env_simps
          demo_request_simps demo_title merge_session_events_def Let_def tr merge_try_events_def
          vr video_stream_events_def demo_selected demo_itag stream_close_def path_join_def
          stream_note_def)
qed

lemma failing_audio_events:
  "session_events ''temp'' ''s1'' mp3_request failing_env {}
     = [Wrote ''s1'' (basic_rec ''initializing'' (JNum 0) ''Getting video information...''),
        Responded (started_response ''s1''),
        Begin GetInfo, End GetInfo,
        Begin DownloadAudio,
        Wrote ''s1'' (basic_rec ''downloading'' (JNum 0) ''Downloading audio...''),
        Ytdl \<lparr>filter_opt = Some ''audioonly'', quality_opt = VString ''highestaudio''\<rparr>,
        Created ''temp/My_clip_s1.mp3'',
        Wrote ''s1'' (download_progress_rec ''audio'' 1 3),
        Failed DownloadAudio ''socket hang up'',
        Wrote ''s1'' (error_rec ''socket hang up'')]"
proof -
  have res: "pipeline_result mp3_request failing_env = Rejected ''socket hang up''"
    by (simp add: pipeline_result_def demo_env_simps demo_request_simps stream_result_def)
  show ?thesis
    by (simp add: session_events_def work_events_def res pipeline_events_def demo_env_simps
          demo_request_simps demo_title audio_events_def download_notes_def stream_close_def
          path_join_def)
qed

lemma initial_state_simps:
  "files initial_state = {}" "downloadProgress initial_state = Map.empty" "trace initial_state = []"
  by (simp_all add: initial_state_def)

lemma demo_audio_events:
  "session_events ''temp'' ''s1'' mp3_request demo_env {}
     = [Wrote ''s1'' (basic_rec ''initializing'' (JNum 0) ''Getting video information...''),
        Responded (started_response ''s1''),
        Begin GetInfo, End GetInfo,
        Begin DownloadAudio,
        Wrote ''s1'' (basic_rec ''downloading'' (JNum 0) ''Downloading audio...''),
        Ytdl \<lparr>filter_opt = Some ''audioonly'', quality_opt = VString ''highestaudio''\<rparr>,
        Created ''temp/My_clip_s1.mp3'',
        Wrote ''s1'' (download_progress_rec ''audio'' 10 40),
        Wrote ''s1'' (download_progress_rec ''audio'' 40 40),
        Wrote ''s1'' (completed_rec ''Download completed!'' ''temp/My_clip_s1.mp3'' ''My_clip.mp3''),
        End DownloadAudio]"
proof -
  have res: "pipeline_result mp3_request demo_env = Resolved ()"
    by (simp add: pipeline_result_def demo_env_simps demo_request_simps stream_result_def)
  show ?thesis
    by (simp add: session_events_def work_events_def res pipeline_events_def demo_env_simps
          demo_request_simps demo_title audio_events_def download_notes_def stream_close_def
          path_join_def)
       (simp add: demo_env_def)
qed

text \<open>The state \<open>finished_state\<close> is what a successful audio session leaves behind.\<close>

lemma finished_state_reached:
  "downloadProgress
     (snd (download_handler demo_validateURL ''temp'' ''s1'' mp3_request demo_env initial_state))
     = downloadProgress finished_state \<and>
   files (snd (download_handler demo_validateURL ''temp'' ''s1'' mp3_request demo_env initial_state))
     = files finished_state"
  by (simp add: download_handler_run demo_request_simps demo_valid initial_state_simps
        demo_audio_events progress_run_events files_run_events finished_state_def)


subsection \<open>The claims about sessions\<close>

text \<open>
  C1. For a download request with a valid URL, a format other than \<open>mp3\<close> and an FFmpeg
  merge preset as itag, in a session in which no stage fails, the stages are, in this
  order: the response with the session id, the info fetch, the selection of a video-only
  format, the download of the video stream to a file, the download of the audio stream to
  a file, the merge into the output file, the deletion of the video file and of the audio
  file, and last the write that marks the record completed with the output path. Each
  phase ends before the next begins. Afterwards the output file is on disk and the two
  intermediate files are not.
\<close>

theorem merge_pipeline_order:
  assumes valid: "validateURL (req_url req)"
    and fmt: "req_format req \<noteq> VString ''mp3''"
    and itg: "req_itag req = VString ''ffmpeg-best'' \<or> req_itag req = VString ''ffmpeg-medium''"
    and info: "got_info env = Resolved info"
    and sel: "select_video_format info (req_itag req = VString ''ffmpeg-best'') = Some f"
    and ok1: "stream_error (first_stream env) = None"
    and ok2: "stream_error (second_stream env) = None"
    and ok3: "merge_ending (merging env) = MergeEnd"
  shows "stages (new_events s (snd (download_handler validateURL tempDir sessionId req env s)))
           = merge_stages tempDir sessionId (sanitize_title (title (videoDetails info))) (itag f) \<and>
         hasVideo f \<and> \<not> hasAudio f \<and>
         downloadProgress (snd (download_handler validateURL tempDir sessionId req env s)) sessionId
           = Some (completed_rec ''Download and merge completed!''
                     (path_join tempDir (sanitize_title (title (videoDetails info)) @ ''_merged_'' @ sessionId @ ''.mp4''))
                     (sanitize_title (title (videoDetails info)) @ ''_merged.mp4'')) \<and>
         files (snd (download_handler validateURL tempDir sessionId req env s))
           = insert (path_join tempDir (sanitize_title (title (videoDetails info)) @ ''_merged_'' @ sessionId @ ''.mp4''))
               (files s -
                {path_join tempDir (sanitize_title (title (videoDetails info)) @ ''_video_'' @ sessionId @ ''.mp4''),
                 path_join tempDir (sanitize_title (title (videoDetails info)) @ ''_audio_'' @ sessionId @ ''.m4a'')})"
proof -
  let ?E = "session_events tempDir sessionId req env (files s)"
  let ?s' = "snd (download_handler validateURL tempDir sessionId req env s)"
  let ?done = "Wrote sessionId (completed_rec ''Download and merge completed!''
                     (path_join tempDir (sanitize_title (title (videoDetails info)) @ ''_merged_'' @ sessionId @ ''.mp4''))
                     (sanitize_title (title (videoDetails info)) @ ''_merged.mp4''))"
  have s': "?s' = run_events ?E s"
    using valid by (simp add: download_handler_run)
  have new: "new_events s ?s' = ?E"
    by (simp add: s' new_events_run_events)
  have st: "stages ?E = merge_stages tempDir sessionId (sanitize_title (title (videoDetails info))) (itag f)"
    by (rule stages_merge_session(1) [OF fmt itg info sel ok1 ok2 ok3])
  have lst: "last ?E = ?done"
    by (rule session_events_completed [OF fmt itg info sel ok1 ok2 ok3])
  have ne: "?E \<noteq> []" by (simp add: session_events_def)
  from split_at_last [OF ne lst] obtain pre where E: "?E = pre @ [?done]" ..
  have rec: "downloadProgress ?s' sessionId
           = Some (completed_rec ''Download and merge completed!''
                     (path_join tempDir (sanitize_title (title (videoDetails info)) @ ''_merged_'' @ sessionId @ ''.mp4''))
                     (sanitize_title (title (videoDetails info)) @ ''_merged.mp4''))"
    unfolding s' progress_run_events by (subst E) (rule replay_last_write)
  have "files ?s' = disk_after (stages ?E) (files s)"
    by (simp add: s' files_run_events disk_after_stages)
  then have disk: "files ?s'
           = insert (path_join tempDir (sanitize_title (title (videoDetails info)) @ ''_merged_'' @ sessionId @ ''.mp4''))
               (files s -
                {path_join tempDir (sanitize_title (title (videoDetails info)) @ ''_video_'' @ sessionId @ ''.mp4''),
                 path_join tempDir (sanitize_title (title (videoDetails info)) @ ''_audio_'' @ sessionId @ ''.m4a'')})"
    by (simp only: st merge_stages_disk)
  from st rec disk selected_video_only [OF sel] show ?thesis
    by (simp add: new)
qed

theorem merge_pipeline_order_witness:
  "demo_validateURL (req_url merge_request) \<and>
   stages (new_events initial_state
     (snd (download_handler demo_validateURL ''temp'' ''s1'' merge_request demo_env initial_state)))
     = merge_stages ''temp'' ''s1'' ''My_clip'' 137 \<and>
   downloadProgress
     (snd (download_handler demo_validateURL ''temp'' ''s1'' merge_request demo_env initial_state)) ''s1''
     = Some (completed_rec ''Download and merge completed!'' ''temp/My_clip_merged_s1.mp4''
               ''My_clip_merged.mp4'') \<and>
   files (snd (download_handler demo_validateURL ''temp'' ''s1'' merge_request demo_env initial_state))
     = {''temp/My_clip_merged_s1.mp4''}"
proof -
  have valid: "demo_validateURL (req_url merge_request)"
    by (simp add: demo_request_simps demo_valid)
  have itg: "req_itag merge_request = VString ''ffmpeg-best'' \<or>
             req_itag merge_request = VString ''ffmpeg-medium''"
    by (simp add: demo_request_simps)
  have sel: "select_video_format demo_info (req_itag merge_request = VString ''ffmpeg-best'')
               = Some fmt_1080_video"
    by (simp add: demo_request_simps demo_selected)
  from merge_pipeline_order [where validateURL = demo_validateURL and req = merge_request
         and env = demo_env and info = demo_info and f = fmt_1080_video and s = initial_state
         and tempDir = "''temp''" and sessionId = "''s1''",
         OF valid demo_request_simps(2) itg demo_env_simps(1) sel
         demo_env_simps(2) demo_env_simps(3) demo_env_simps(4)]
  show ?thesis
    by (simp add: valid demo_title demo_itag path_join_def initial_state_simps)
qed

theorem merge_pipeline_order_counterexample:
  "stages (new_events initial_state
     (snd (download_handler demo_validateURL ''temp'' ''s1'' merge_request demo_env initial_state)))
     \<noteq> claimed_merge_stages ''temp'' ''s1'' ''My_clip'' 137 \<and>
   begun (new_events initial_state
     (snd (download_handler demo_validateURL ''temp'' ''s1'' mp3_merge_request demo_env initial_state)))
     = [GetInfo, DownloadAudio] \<and>
   begun (new_events initial_state
     (snd (download_handler demo_validateURL ''temp'' ''s1'' merge_request failing_env initial_state)))
     = [GetInfo, DownloadVideoStream]"
proof -
  have "merge_stages ''temp'' ''s1'' ''My_clip'' 137 \<noteq> claimed_merge_stages ''temp'' ''s1'' ''My_clip'' 137"
    by (simp add: merge_stages_def claimed_merge_stages_def Let_def)
  moreover have "begun (session_events ''temp'' ''s1'' mp3_merge_request demo_env F)
                   = [GetInfo, DownloadAudio]" for F
    by (simp add: marks_session_events pipeline_events_def demo_env_simps demo_request_simps
          Let_def marks_pieces)
  then have "begun (new_events initial_state
     (snd (download_handler demo_validateURL ''temp'' ''s1'' mp3_merge_request demo_env initial_state)))
     = [GetInfo, DownloadAudio]"
    by (simp add: demo_merge_new_events demo_request_simps demo_valid)
  moreover have "begun (new_events initial_state
     (snd (download_handler demo_validateURL ''temp'' ''s1'' merge_request failing_env initial_state)))
     = [GetInfo, DownloadVideoStream]"
    by (simp add: demo_merge_new_events demo_request_simps demo_valid initial_state_simps
          failing_merge_events stream_note_def)
  ultimately show ?thesis
    by (simp add: demo_merge_stages)
qed

theorem stage_failure_is_reported_witness:
  "demo_validateURL (req_url merge_request) \<and>
   Failed DownloadVideoStream ''socket hang up''
     \<in> set (new_events initial_state
         (snd (download_handler demo_validateURL ''temp'' ''s1'' merge_request failing_env initial_state))) \<and>
   downloadProgress
     (snd (download_handler demo_validateURL ''temp'' ''s1'' merge_request failing_env initial_state)) ''s1''
     = Some \<lparr>status = Some ''error'', progress = Some (JNum 0),
              stage = Some ''Error occurred'', downloadedBytes = None, totalBytes = None,
              error = Some ''socket hang up'', filePath = None, filename = None,
              ffmpegProgress = None, timestamp = None\<rparr> \<and>
   stream_error (first_stream failing_env) = Some ''socket hang up'' \<and>
   begun (new_events initial_state
         (snd (download_handler demo_validateURL ''temp'' ''s1'' merge_request failing_env initial_state)))
     = [GetInfo, DownloadVideoStream]"
proof -
  have valid: "demo_validateURL (req_url merge_request)"
    by (simp add: demo_request_simps demo_valid)
  have new: "new_events initial_state
         (snd (download_handler demo_validateURL ''temp'' ''s1'' merge_request failing_env initial_state))
       = session_events ''temp'' ''s1'' merge_request failing_env {}"
    by (simp add: demo_merge_new_events valid initial_state_simps)
  have failed: "Failed DownloadVideoStream ''socket hang up''
     \<in> set (new_events initial_state
         (snd (download_handler demo_validateURL ''temp'' ''s1'' merge_request failing_env initial_state)))"
    unfolding new by (simp add: failing_merge_events stream_note_def)
  have bg: "begun (new_events initial_state
         (snd (download_handler demo_validateURL ''temp'' ''s1'' merge_request failing_env initial_state)))
     = [GetInfo, DownloadVideoStream]"
    unfolding new by (simp add: failing_merge_events stream_note_def)
  from stage_failure_is_reported [where validateURL = demo_validateURL and req = merge_request
         and env = failing_env and s = initial_state and tempDir = "''temp''"
         and sessionId = "''s1''" and ph = DownloadVideoStream and msg = "''socket hang up''",
         OF valid failed]
  show ?thesis
    using valid failed bg by (simp add: demo_env_simps)
qed

lemma json_of_progress_literal:
  "json_of_progress r
     = \<lparr>s_status = status r,
        s_progress = (case progress r of
                        None \<Rightarrow> None
                      | Some (JNum i) \<Rightarrow> Some (JsonNum i)
                      | Some JNaN \<Rightarrow> Some JsonNull
                      | Some JInfinity \<Rightarrow> Some JsonNull),
        s_stage = stage r, s_downloadedBytes = downloadedBytes r,
        s_totalBytes = totalBytes r, s_error = error r, s_filePath = filePath r,
        s_filename = filename r,
        s_ffmpegProgress =
          (case ffmpegProgress r of
             None \<Rightarrow> None
           | Some fp \<Rightarrow>
               Some \<lparr>s_percent = (case percent fp of
                                     JNum i \<Rightarrow> JsonNum i
                                   | JNaN \<Rightarrow> JsonNull
                                   | JInfinity \<Rightarrow> JsonNull),
                     s_currentTime = currentTime fp,
                     s_targetSize = (case targetSize fp of
                                       None \<Rightarrow> None
                                     | Some (JNum i) \<Rightarrow> Some (JsonNum i)
                                     | Some JNaN \<Rightarrow> Some JsonNull
                                     | Some JInfinity \<Rightarrow> Some JsonNull)\<rparr>),
        s_timestamp = timestamp r\<rparr>"
  by (simp add: json_of_progress_def json_of_ffmpeg_def split: option.splits jsnum.splits)

text \<open>
  C6. For a valid download request the handler answers HTTP 200 with
  \<open>{success: true, sessionId, message}\<close>, where \<open>sessionId\<close> is the id generated for the
  request; it does so after storing the first progress record under that id and before
  the info fetch begins, so before any download work. At every later moment of the
  session (after any number of its events) the map holds a record for the session id, and
  GET /api/progress/:sessionId answers HTTP 200 with the JSON text of exactly that record
  and changes nothing: every property of the record is sent as stored, except that JSON
  writes \<open>null\<close> for a number that is \<open>NaN\<close> or \<open>Infinity\<close>.
\<close>

theorem session_can_be_polled:
  assumes valid: "validateURL (req_url req)"
  shows "fst (download_handler validateURL tempDir sessionId req env s)
           = Response 200
               (StartedBody True sessionId ''Download started. Use the session ID to track progress.'') \<and>
         take 3 (new_events s (snd (download_handler validateURL tempDir sessionId req env s)))
           = [Wrote sessionId
                \<lparr>status = Some ''initializing'', progress = Some (JNum 0),
                 stage = Some ''Getting video information...'', downloadedBytes = None,
                 totalBytes = None, error = None, filePath = None, filename = None,
                 ffmpegProgress = None, timestamp = None\<rparr>,
              Responded
                (Response 200
                   (StartedBody True sessionId ''Download started. Use the session ID to track progress.'')),
              Begin GetInfo] \<and>
         snd (download_handler validateURL tempDir sessionId req env s)
           = run_events (new_events s (snd (download_handler validateURL tempDir sessionId req env s))) s \<and>
         (\<forall>n\<ge>2. \<exists>r.
            downloadProgress
              (run_events (take n (new_events s (snd (download_handler validateURL tempDir sessionId req env s)))) s)
              sessionId = Some r \<and>
            progress_handler sessionId
              (run_events (take n (new_events s (snd (download_handler validateURL tempDir sessionId req env s)))) s)
              = (Response 200
                   (ProgressBody
                      \<lparr>s_status = status r,
                       s_progress = (case progress r of
                                       None \<Rightarrow> None
                                     | Some (JNum i) \<Rightarrow> Some (JsonNum i)
                                     | Some JNaN \<Rightarrow> Some JsonNull
                                     | Some JInfinity \<Rightarrow> Some JsonNull),
                       s_stage = stage r, s_downloadedBytes = downloadedBytes r,
                       s_totalBytes = totalBytes r, s_error = error r, s_filePath = filePath r,
                       s_filename = filename r,
                       s_ffmpegProgress =
                         (case ffmpegProgress r of
                            None \<Rightarrow> None
                          | Some fp \<Rightarrow>
                              Some \<lparr>s_percent = (case percent fp of
                                                    JNum i \<Rightarrow> JsonNum i
                                                  | JNaN \<Rightarrow> JsonNull
                                                  | JInfinity \<Rightarrow> JsonNull),
                                    s_currentTime = currentTime fp,
                                    s_targetSize = (case targetSize fp of
                                                      None \<Rightarrow> None
                                                    | Some (JNum i) \<Rightarrow> Some (JsonNum i)
                                                    | Some JNaN \<Rightarrow> Some JsonNull
                                                    | Some JInfinity \<Rightarrow> Some JsonNull)\<rparr>),
                       s_timestamp = timestamp r\<rparr>),
                 run_events (take n (new_events s (snd (download_handler validateURL tempDir sessionId req env s)))) s))"
proof -
  let ?E = "session_events tempDir sessionId req env (files s)"
  let ?s' = "snd (download_handler validateURL tempDir sessionId req env s)"
  let ?init = "Wrote sessionId (basic_rec ''initializing'' (JNum 0) ''Getting video information...'')"
  have s': "?s' = run_events ?E s"
    using valid by (simp add: download_handler_run)
  have new: "new_events s ?s' = ?E"
    by (simp add: s' new_events_run_events)
  have resp: "fst (download_handler validateURL tempDir sessionId req env s) = started_response sessionId"
    using valid by (simp add: download_handler_run)
  obtain rest where E: "?E = ?init # Responded (started_response sessionId) # Begin GetInfo # rest"
    by (simp add: session_events_def work_events_def pipeline_events_def)
  have first3: "take 3 ?E = [?init, Responded (started_response sessionId), Begin GetInfo]"
    by (simp add: E)
  have poll: "\<exists>r. downloadProgress (run_events (take n ?E) s) sessionId = Some r \<and>
            progress_handler sessionId (run_events (take n ?E) s)
              = (Response 200 (ProgressBody (json_of_progress r)), run_events (take n ?E) s)"
    if n: "2 \<le> n" for n
  proof -
    from n obtain k where k: "n = Suc (Suc k)"
      by (metis Suc_le_D numeral_2_eq_2 Suc_le_mono)
    have "take n ?E = ?init # Responded (started_response sessionId) # take k (Begin GetInfo # rest)"
      by (simp add: E k)
    then have "downloadProgress (run_events (take n ?E) s) sessionId \<noteq> None"
      by (simp add: progress_run_events replay_keeps)
    then show ?thesis
      by (auto simp: progress_handler_def)
  qed
  from resp first3 poll s' show ?thesis
    unfolding new json_of_progress_literal
    by (simp add: started_response_def basic_rec_def empty_obj_def)
qed

theorem session_can_be_polled_witness:
  "demo_validateURL (req_url merge_request) \<and>
   fst (download_handler demo_validateURL ''temp'' ''s1'' merge_request demo_env initial_state)
     = Response 200
         (StartedBody True ''s1'' ''Download started. Use the session ID to track progress.'') \<and>
   progress_handler ''s1''
     (run_events (take 2 (new_events initial_state
        (snd (download_handler demo_validateURL ''temp'' ''s1'' merge_request demo_env initial_state))))
        initial_state)
     = (Response 200
          (ProgressBody
             \<lparr>s_status = Some ''initializing'', s_progress = Some (JsonNum 0),
              s_stage = Some ''Getting video information...'', s_downloadedBytes = None,
              s_totalBytes = None, s_error = None, s_filePath = None, s_filename = None,
              s_ffmpegProgress = None, s_timestamp = None\<rparr>),
        run_events (take 2 (new_events initial_state
          (snd (download_handler demo_validateURL ''temp'' ''s1'' merge_request demo_env initial_state))))
          initial_state)"
proof -
  have valid: "demo_validateURL (req_url merge_request)"
    by (simp add: demo_request_simps demo_valid)
  let ?E = "new_events initial_state
        (snd (download_handler demo_validateURL ''temp'' ''s1'' merge_request demo_env initial_state))"
  let ?init = "\<lparr>status = Some ''initializing'', progress = Some (JNum 0),
                 stage = Some ''Getting video information...'', downloadedBytes = None,
                 totalBytes = None, error = None, filePath = None, filename = None,
                 ffmpegProgress = None, timestamp = None\<rparr>"
  let ?resp = "Response 200
         (StartedBody True ''s1'' ''Download started. Use the session ID to track progress.'')"
  note inst = session_can_be_polled [where validateURL = demo_validateURL and req = merge_request
         and env = demo_env and s = initial_state and tempDir = "''temp''" and sessionId = "''s1''",
         OF valid]
  from inst have t3: "take 3 ?E = [Wrote ''s1'' ?init, Responded ?resp, Begin GetInfo]"
    by blast
  have "take 2 ?E = take 2 (take 3 ?E)" by simp
  then have t2: "take 2 ?E = [Wrote ''s1'' ?init, Responded ?resp]"
    unfolding t3 by simp
  have cur: "downloadProgress (run_events (take 2 ?E) initial_state) ''s1'' = Some ?init"
    unfolding t2 by (simp add: progress_run_events)
  note poll = inst [THEN conjunct2, THEN conjunct2, THEN conjunct2, rule_format, of 2,
    folded json_of_progress_literal]
  from poll obtain r where
    r: "downloadProgress (run_events (take 2 ?E) initial_state) ''s1'' = Some r"
       "progress_handler ''s1'' (run_events (take 2 ?E) initial_state)
          = (Response 200 (ProgressBody (json_of_progress r)), run_events (take 2 ?E) initial_state)"
    by auto
  from r(1) cur have "r = ?init" by simp
  with r(2) have "progress_handler ''s1'' (run_events (take 2 ?E) initial_state)
         = (Response 200 (ProgressBody (json_of_progress ?init)), run_events (take 2 ?E) initial_state)"
    by simp
  with inst valid show ?thesis
    by (simp add: json_of_progress_def)
qed





text \<open>
  C4. An audio session whose stream fails ends with the error record while its partial file
  \<open>temp/My_clip_s1.mp3\<close> stays on disk; the same failure in a merge session leaves no
  file, because only \<open>downloadAndMergeWithFFmpeg\<close> deletes its files when it fails.
\<close>

theorem failed_audio_session_leaves_file:
  "downloadProgress
     (snd (download_handler demo_validateURL ''temp'' ''s1'' mp3_request failing_env initial_state)) ''s1''
     = Some (error_rec ''socket hang up'') \<and>
   files (snd (download_handler demo_validateURL ''temp'' ''s1'' mp3_request failing_env initial_state))
     = {''temp/My_clip_s1.mp3''} \<and>
   downloadProgress
     (snd (download_handler demo_validateURL ''temp'' ''s1'' merge_request failing_env initial_state)) ''s1''
     = Some (error_rec ''socket hang up'') \<and>
   files (snd (download_handler demo_validateURL ''temp'' ''s1'' merge_request failing_env initial_state))
     = {}"
  by (simp add: download_handler_run demo_request_simps demo_valid initial_state_simps
        failing_audio_events failing_merge_events progress_run_events files_run_events
        stream_note_def)

end
